theory Spec2Isabelle
  imports Main "HOL-Library.Sublist"
begin

section \<open>Python strings\<close>

text \<open>
  A Python \<open>str\<close> is modelled as a HOL \<open>string\<close>; a \<open>char\<close> stands for one code point
  below 256. The functions below are the \<open>str\<close> methods the program calls, restricted
  to that range.
\<close>

definition is_space :: "char \<Rightarrow> bool" where
  \<comment> \<open>\<open>str.isspace\<close> on one code point below 256\<close>
  "is_space c =
     (let n = (of_char c :: nat)
      in (9 \<le> n \<and> n \<le> 13) \<or> (28 \<le> n \<and> n \<le> 32) \<or> n = 133 \<or> n = 160)"

definition strip :: "string \<Rightarrow> string" where
  \<comment> \<open>\<open>s.strip()\<close>\<close>
  "strip s = rev (dropWhile is_space (rev (dropWhile is_space s)))"

fun split_on :: "char \<Rightarrow> string \<Rightarrow> string list" where
  \<comment> \<open>\<open>s.split(c)\<close> for a one-character separator: never empty, one more piece than separators\<close>
  "split_on c [] = [[]]"
| "split_on c (x # xs) =
     (if x = c then [] # split_on c xs
      else (case split_on c xs of [] \<Rightarrow> [[x]] | w # ws \<Rightarrow> (x # w) # ws))"

fun split_ws :: "string \<Rightarrow> string list" where
  \<comment> \<open>\<open>s.split()\<close>: the maximal runs of non-whitespace characters\<close>
  "split_ws [] = []"
| "split_ws (x # xs) =
     (if is_space x then split_ws xs
      else (case xs of
              [] \<Rightarrow> [[x]]
            | y # ys \<Rightarrow>
                if is_space y then [x] # split_ws xs
                else (case split_ws xs of [] \<Rightarrow> [[x]] | w # ws \<Rightarrow> (x # w) # ws)))"

definition lower_char :: "char \<Rightarrow> char" where
  "lower_char c =
     (let n = (of_char c :: nat)
      in if (65 \<le> n \<and> n \<le> 90) \<or> (192 \<le> n \<and> n \<le> 222 \<and> n \<noteq> 215)
         then char_of (n + 32) else c)"

definition lower :: "string \<Rightarrow> string" where
  \<comment> \<open>\<open>s.lower()\<close>\<close>
  "lower s = map lower_char s"

definition contains :: "string \<Rightarrow> string \<Rightarrow> bool" where
  \<comment> \<open>\<open>contains s t\<close> is Python's \<open>t in s\<close> on strings\<close>
  "contains s t = sublist t s"

definition contains_any :: "string \<Rightarrow> string list \<Rightarrow> bool" where
  \<comment> \<open>\<open>any(t in s for t in ts)\<close>\<close>
  "contains_any s ts = list_ex (contains s) ts"

definition remove_char :: "char \<Rightarrow> string \<Rightarrow> string" where
  \<comment> \<open>\<open>s.replace(c, "")\<close> for a one-character \<open>c\<close>\<close>
  "remove_char c s = filter (\<lambda>x. x \<noteq> c) s"

fun join_with :: "char \<Rightarrow> string list \<Rightarrow> string" where
  "join_with c [] = []"
| "join_with c [p] = p"
| "join_with c (p # q # ps) = p @ c # join_with c (q # ps)"


section \<open>Configuration\<close>

text \<open>
  The four environment variables read at import time. \<open>None\<close> is an unset variable.
\<close>

record config =
  WORKDAY_URL :: "string option"
  USERNAME :: "string option"
  PASSWORD :: "string option"
  JOB_IDS_env :: "string option"

definition parse_job_ids :: "string \<Rightarrow> string list" where
  \<comment> \<open>\<open>[j.strip() for j in raw.split(",") if j.strip()]\<close>\<close>
  "parse_job_ids raw = [strip j. j \<leftarrow> split_on CHR '','' raw, strip j \<noteq> []]"

definition JOB_IDS :: "config \<Rightarrow> string list" where
  \<comment> \<open>\<open>os.getenv("JOB_IDS", "")\<close> parsed\<close>
  "JOB_IDS cfg = parse_job_ids (case JOB_IDS_env cfg of None \<Rightarrow> [] | Some raw \<Rightarrow> raw)"

definition truthy :: "string option \<Rightarrow> bool" where
  \<comment> \<open>Python truth value of an optional string: \<open>None\<close> and \<open>""\<close> are false\<close>
  "truthy v = (case v of None \<Rightarrow> False | Some s \<Rightarrow> s \<noteq> [])"


section \<open>The browser\<close>

text \<open>
  The program drives a browser through Playwright. A locator is a lazy description of
  elements: \<open>page.locator(sel)\<close>, \<open>loc.first\<close>, \<open>loc.nth(i)\<close>, \<open>loc.locator(sel)\<close>.
\<close>

datatype locator =
    Page string
  | First locator
  | Nth locator nat
  | Sub locator string

text \<open>
  Every call that can change the page, the files or the clock is an action; the trace of
  a run is the list of actions performed so far, oldest first. Durations are in
  milliseconds. \<open>print\<close> is not modelled.
\<close>

datatype action =
    Playwright_start
  | Launch
  | New_page
  | Close_browser
  | Playwright_stop
  | Goto string
  | Page_fill string string
  | Page_click string
  | Click locator
  | Fill locator string
  | Press locator string
  | Keyboard_press string
  | Scroll_into_view locator
  | Evaluate string
  | Screenshot string
  | Wait_for_load_state nat
  | Sleep nat
  | Save_results

datatype exn = Exception string

text \<open>
  The browser and the site are outside the program. During one run they are a fixed
  function of the actions performed so far: what a query answers, and whether an action
  raises. So a query changes nothing, and two queries with no action between them see
  the same page. Any call may raise; the exceptions are those derived from Python's
  \<open>Exception\<close>, which is what every \<open>except\<close> clause of the program catches.
\<close>

record browser =
  count_of :: "action list \<Rightarrow> locator \<Rightarrow> exn + nat"
  visible_of :: "action list \<Rightarrow> locator \<Rightarrow> exn + bool"
  enabled_of :: "action list \<Rightarrow> locator \<Rightarrow> exn + bool"
  text_of :: "action list \<Rightarrow> locator \<Rightarrow> exn + string"
  attr_of :: "action list \<Rightarrow> locator \<Rightarrow> string \<Rightarrow> exn + string option"
  raises :: "action list \<Rightarrow> action \<Rightarrow> exn option"


section \<open>Statements, exceptions and loops\<close>

type_synonym ('s, 'a) prog = "'s \<Rightarrow> (exn + 'a) \<times> 's"

definition ret :: "'a \<Rightarrow> ('s, 'a) prog" where
  "ret x = (\<lambda>s. (Inr x, s))"

definition raise :: "exn \<Rightarrow> ('s, 'a) prog" where
  "raise e = (\<lambda>s. (Inl e, s))"

definition bind :: "('s, 'a) prog \<Rightarrow> ('a \<Rightarrow> ('s, 'b) prog) \<Rightarrow> ('s, 'b) prog" where
  "bind m f = (\<lambda>s. case m s of (Inl e, s') \<Rightarrow> (Inl e, s') | (Inr x, s') \<Rightarrow> f x s')"

definition seq :: "('s, unit) prog \<Rightarrow> ('s, 'b) prog \<Rightarrow> ('s, 'b) prog" where
  "seq m n = bind m (\<lambda>_. n)"

fun seqs :: "('s, unit) prog list \<Rightarrow> ('s, unit) prog" where
  "seqs [] = ret ()"
| "seqs (m # ms) = seq m (seqs ms)"

definition try_except :: "('s, 'a) prog \<Rightarrow> (exn \<Rightarrow> ('s, 'a) prog) \<Rightarrow> ('s, 'a) prog" where
  \<comment> \<open>\<open>try: m except Exception as e: h e\<close>\<close>
  "try_except m h = (\<lambda>s. case m s of (Inl e, s') \<Rightarrow> h e s' | (Inr x, s') \<Rightarrow> (Inr x, s'))"

definition try_finally :: "('s, 'a) prog \<Rightarrow> ('s, unit) prog \<Rightarrow> ('s, 'a) prog" where
  \<comment> \<open>\<open>try: m finally: fin\<close>; an exception of \<open>fin\<close> replaces the outcome of \<open>m\<close>\<close>
  "try_finally m fin =
     (\<lambda>s. case m s of (r, s') \<Rightarrow>
        (case fin s' of (Inl e, s'') \<Rightarrow> (Inl e, s'') | (Inr _, s'') \<Rightarrow> (r, s'')))"

text \<open>
  What the body of a loop, or a block inside a function, tells the code around it:
  go on, leave the loop, or return from the enclosing function.
\<close>

datatype 'r flow = Next | Break | Return 'r

fun for_each :: "'x list \<Rightarrow> ('x \<Rightarrow> ('s, 'r flow) prog) \<Rightarrow> ('s, 'r flow) prog" where
  "for_each [] body = ret Next"
| "for_each (x # xs) body =
     bind (body x) (\<lambda>f. case f of
        Next \<Rightarrow> for_each xs body
      | Break \<Rightarrow> ret Next
      | Return r \<Rightarrow> ret (Return r))"

definition and_then :: "('s, 'r flow) prog \<Rightarrow> ('s, 'r flow) prog \<Rightarrow> ('s, 'r flow) prog" where
  \<comment> \<open>the statements after a block run unless the block returned\<close>
  "and_then m n = bind m (\<lambda>f. case f of Return r \<Rightarrow> ret (Return r) | _ \<Rightarrow> n)"

definition returning :: "('s, 'r flow) prog \<Rightarrow> 'r \<Rightarrow> ('s, 'r) prog" where
  \<comment> \<open>a function body that ends in \<open>return d\<close>\<close>
  "returning m d = bind m (\<lambda>f. case f of Return r \<Rightarrow> ret r | _ \<Rightarrow> ret d)"

fun for_acc :: "'x list \<Rightarrow> ('x \<Rightarrow> 'a \<Rightarrow> ('s, 'a) prog) \<Rightarrow> 'a \<Rightarrow> ('s, 'a) prog" where
  \<comment> \<open>a loop with neither \<open>break\<close> nor \<open>return\<close> that updates local variables\<close>
  "for_acc [] body a = ret a"
| "for_acc (x # xs) body a = bind (body x a) (for_acc xs body)"


section \<open>Playwright calls\<close>

type_synonym 'a page_prog = "(action list, 'a) prog"

definition perform :: "browser \<Rightarrow> action \<Rightarrow> unit page_prog" where
  \<comment> \<open>the action is attempted, and so recorded, whether or not it raises\<close>
  "perform env a =
     (\<lambda>s. (case raises env s a of None \<Rightarrow> Inr () | Some e \<Rightarrow> Inl e, s @ [a]))"

definition sleep :: "nat \<Rightarrow> unit page_prog" where
  \<comment> \<open>\<open>time.sleep\<close>\<close>
  "sleep ms = (\<lambda>s. (Inr (), s @ [Sleep ms]))"

definition count :: "browser \<Rightarrow> locator \<Rightarrow> nat page_prog" where
  "count env l = (\<lambda>s. (count_of env s l, s))"

definition is_visible :: "browser \<Rightarrow> locator \<Rightarrow> bool page_prog" where
  "is_visible env l = (\<lambda>s. (visible_of env s l, s))"

definition is_enabled :: "browser \<Rightarrow> locator \<Rightarrow> bool page_prog" where
  "is_enabled env l = (\<lambda>s. (enabled_of env s l, s))"

definition inner_text :: "browser \<Rightarrow> locator \<Rightarrow> string page_prog" where
  "inner_text env l = (\<lambda>s. (text_of env s l, s))"

definition get_attribute :: "browser \<Rightarrow> locator \<Rightarrow> string \<Rightarrow> string option page_prog" where
  "get_attribute env l name = (\<lambda>s. (attr_of env s l name, s))"

definition click :: "browser \<Rightarrow> locator \<Rightarrow> unit page_prog" where
  "click env l = perform env (Click l)"

definition scroll_into_view_if_needed :: "browser \<Rightarrow> locator \<Rightarrow> unit page_prog" where
  "scroll_into_view_if_needed env l = perform env (Scroll_into_view l)"

definition keyboard_press :: "browser \<Rightarrow> string \<Rightarrow> unit page_prog" where
  "keyboard_press env k = perform env (Keyboard_press k)"

definition all_of :: "browser \<Rightarrow> locator \<Rightarrow> locator list page_prog" where
  \<comment> \<open>\<open>loc.all()\<close>\<close>
  "all_of env l = bind (count env l) (\<lambda>n. ret (map (Nth l) [0..<n]))"

definition count_and_visible :: "browser \<Rightarrow> locator \<Rightarrow> bool page_prog" where
  \<comment> \<open>\<open>l.count() > 0 and l.is_visible()\<close>\<close>
  "count_and_visible env l =
     bind (count env l) (\<lambda>n. if n > 0 then is_visible env l else ret False)"


section \<open>Utility functions\<close>

definition debug_screenshot :: "browser \<Rightarrow> string \<Rightarrow> unit page_prog" where
  "debug_screenshot env name = try_except (perform env (Screenshot name)) (\<lambda>e. ret ())"

definition wait_for_page_load :: "browser \<Rightarrow> unit page_prog" where
  \<comment> \<open>always called with the default timeout of 10000\<close>
  "wait_for_page_load env =
     try_except (seq (perform env (Wait_for_load_state 10000)) (sleep 4000)) (\<lambda>e. ret ())"

definition required :: "string option \<Rightarrow> string page_prog" where
  \<comment> \<open>a global that is \<open>None\<close> makes the Playwright call that receives it raise\<close>
  "required v = (case v of None \<Rightarrow> raise (Exception ''None'') | Some x \<Rightarrow> ret x)"


section \<open>Steps 1 to 6\<close>

definition step_1_login :: "browser \<Rightarrow> config \<Rightarrow> unit page_prog" where
  \<open>step_1_login env cfg =
     bind (required (WORKDAY_URL cfg)) (\<lambda>url.
     seq (perform env (Goto url)) (
     seq (sleep 2000) (
     seq (debug_screenshot env ''step_1_login_page'') (
     bind (required (USERNAME cfg)) (\<lambda>user.
     seq (perform env (Page_fill ''input[id="input-4"]'' user)) (
     bind (required (PASSWORD cfg)) (\<lambda>pass.
     seq (perform env (Page_fill ''input[id="input-5"]'' pass)) (
     seq (perform env (Page_click ''[data-automation-id="signInSubmitButton"]'')) (
     seq (wait_for_page_load env) (
     debug_screenshot env ''step_1_after_login''))))))))))\<close>

definition step_2_navigate_to_jobs :: "browser \<Rightarrow> unit page_prog" where
  \<open>step_2_navigate_to_jobs env = seqs [
     perform env (Goto ''https://walmart.wd5.myworkdayjobs.com/en-US/WalmartExternal''),
     sleep 3000,
     debug_screenshot env ''step_2_job_search_page'']\<close>

definition step_3_search_job :: "browser \<Rightarrow> string \<Rightarrow> unit page_prog" where
  \<open>step_3_search_job env job_id =
     (let search_box = First (Page ''input[type="text"]'');
          job_link = First (Page (''a[href*="'' @ job_id @ ''"]''))
      in seqs [
        click env search_box,
        perform env (Fill search_box job_id),
        perform env (Press search_box ''Enter''),
        wait_for_page_load env,
        debug_screenshot env ''step_3_search_results'',
        click env job_link,
        wait_for_page_load env,
        debug_screenshot env ''step_3_job_page''])\<close>

definition apply_selectors :: "string list" where
  \<open>apply_selectors = [
     ''a:has-text("Apply")'',
     ''button:has-text("Apply")'',
     ''a:has-text("Continue Application")'',
     ''button:has-text("Continue Application")'',
     ''[data-automation-id*="apply"]'',
     ''[data-automation-id*="continue"]'']\<close>

definition click_apply_button :: "browser \<Rightarrow> bool page_prog" where
  \<comment> \<open>the loop over \<open>apply_selectors\<close>; the result is \<open>button_clicked\<close>\<close>
  "click_apply_button env =
     returning
       (for_each apply_selectors (\<lambda>selector.
          let button = First (Page selector)
          in bind (count_and_visible env button) (\<lambda>found.
             if found then
               seq (click env button) (
               bind (count env button) (\<lambda>n.
               bind (if n > 0 then inner_text env button else ret ''Apply'') (\<lambda>button_text.
               ret (Return True))))
             else ret Next)))
       False"

definition use_last_application :: "browser \<Rightarrow> unit page_prog" where
  \<open>use_last_application env =
     try_except
       (let use_last_app = First (Page ''a:has-text("Use")'')
        in bind (count env use_last_app) (\<lambda>n.
           if n > 0 then
             seqs [click env use_last_app,
                   wait_for_page_load env,
                   debug_screenshot env ''step_4_used_last_app'']
           else ret ()))
       (\<lambda>e. ret ())\<close>

definition step_4_finish :: "browser \<Rightarrow> bool option page_prog" where
  \<comment> \<open>from \<open>wait_for_page_load\<close> to the end of the function, which returns \<open>None\<close>\<close>
  "step_4_finish env =
     seq (wait_for_page_load env) (
     seq (debug_screenshot env ''step_4_after_apply'') (
     seq (use_last_application env) (
     ret None)))"

definition step_4_click_apply :: "browser \<Rightarrow> string \<Rightarrow> bool option page_prog" where
  \<comment> \<open>the result is Python's \<open>False\<close> (\<open>Some False\<close>) or \<open>None\<close>\<close>
  "step_4_click_apply env job_id =
     bind (click_apply_button env) (\<lambda>button_clicked.
     if \<not> button_clicked then
       seq (step_3_search_job env job_id) (
       bind (click_apply_button env) (\<lambda>button_clicked.
       if \<not> button_clicked then
         seq (debug_screenshot env (''no_apply_button_'' @ job_id)) (
         ret (Some False))
       else step_4_finish env))
     else step_4_finish env)"

definition step_5_my_information :: "browser \<Rightarrow> unit page_prog" where
  \<open>step_5_my_information env = seqs [
     debug_screenshot env ''step_5_my_information'',
     try_except
       (bind (count env (Page ''text="How Did You Hear About Us?"'')) (\<lambda>n.
          if n > 0 then
            (let search_box = First (Page ''input[placeholder*="Search"]'')
             in bind (count_and_visible env search_box) (\<lambda>found.
                if found then
                  seqs [click env search_box,
                        perform env (Fill search_box ''Walmart Career Site''),
                        perform env (Press search_box ''Enter''),
                        sleep 2000]
                else ret ()))
          else ret ()))
       (\<lambda>e. ret ()),
     try_except
       (let save_button = First (Page ''button:has-text("Save and Continue")'')
        in bind (count env save_button) (\<lambda>n.
           if n > 0 then seqs [click env save_button, wait_for_page_load env]
           else ret ()))
       (\<lambda>e. ret ()),
     wait_for_page_load env,
     debug_screenshot env ''step_5_after_save'']\<close>

definition step_6_my_experience :: "browser \<Rightarrow> unit page_prog" where
  \<open>step_6_my_experience env = seqs [
     debug_screenshot env ''step_6_my_experience'',
     click env (First (Page ''button:has-text("Save and Continue")'')),
     wait_for_page_load env,
     debug_screenshot env ''step_6_after_save'']\<close>


section \<open>Step 7: the application questions\<close>

fun str_nat :: "nat \<Rightarrow> string" where
  \<comment> \<open>\<open>str(n)\<close>, as an f-string formats a number\<close>
  "str_nat n =
     (if n < 10 then [char_of (48 + n)] else str_nat (n div 10) @ [char_of (48 + n mod 10)])"

definition ancestor :: "locator \<Rightarrow> nat \<Rightarrow> locator" where
  \<open>ancestor l level = Sub l (''xpath=ancestor::*['' @ str_nat level @ '']'')\<close>

definition empty_indicators :: "string list" where
  "empty_indicators = [
     ''select one'', ''select an'', ''choose'', ''please select'',
     ''-- select'', ''select...'', ''click to select'', '''']"

definition is_dropdown_filled :: "browser \<Rightarrow> locator \<Rightarrow> bool page_prog" where
  "is_dropdown_filled env dropdown_element =
     try_except
       (bind (inner_text env dropdown_element) (\<lambda>t.
          let dropdown_text = lower t
          in if contains_any dropdown_text empty_indicators then ret False
             else
               bind (get_attribute env dropdown_element ''aria-expanded'') (\<lambda>aria_expanded.
               bind (get_attribute env dropdown_element ''value'') (\<lambda>v.
               if truthy v \<and> strip (the v) \<noteq> [] \<and> the v \<notin> set ['''', ''0'', ''-1'']
               then ret True
               else if length (strip dropdown_text) > 15 then ret True
               else ret False))))
       (\<lambda>e. ret False)"

definition question_selectors :: "string \<Rightarrow> string list" where
  \<open>question_selectors pattern_text = [
     ''fieldset:has-text("'' @ pattern_text @ ''")'',
     ''legend:has-text("'' @ pattern_text @ ''")'',
     ''label:has-text("'' @ pattern_text @ ''")'']\<close>

definition nav_terms :: "string list" where
  "nav_terms = [''skip to main'', ''search for jobs'', ''candidate home'', ''settings'',
     ''english'', ''espa'' @ [CHR 0xF1] @ ''ol'']"

definition question_words :: "string list" where
  "question_words =
     [''?'', ''select'', ''certify'', ''work'', ''status'', ''category'', ''experience'']"

definition dropdown_selectors :: "string list" where
  \<open>dropdown_selectors = [
     ''[role="combobox"]'',
     ''select'',
     ''[aria-haspopup="listbox"]'',
     ''button[aria-expanded]'',
     ''button[aria-haspopup="listbox"]'',
     ''button:has-text("Select One")'']\<close>

definition option_selectors :: "string \<Rightarrow> string list" where
  \<open>option_selectors answer_text = [
     ''[role="option"]:has-text("'' @ answer_text @ ''")'',
     ''li:has-text("'' @ answer_text @ ''")'',
     ''div:has-text("'' @ answer_text @ ''")'',
     ''[data-automation-label*="'' @ answer_text @ ''"]'']\<close>

definition partial_option :: "string \<Rightarrow> locator" where
  \<open>partial_option word = First (Page (''[role="option"]:has-text("'' @ word @ ''")''))\<close>

definition select_answer :: "browser \<Rightarrow> string \<Rightarrow> bool flow page_prog" where
  \<comment> \<open>the search of the opened dropdown for the answer; every path returns\<close>
  "select_answer env answer_text =
     and_then
       (for_each (option_selectors answer_text) (\<lambda>opt_selector.
          let option = First (Page opt_selector)
          in bind (count_and_visible env option) (\<lambda>found.
             if found then
               seq (click env option) (seq (sleep 1000) (ret (Return True)))
             else ret Next)))
       (and_then
          (for_each (split_ws answer_text) (\<lambda>word.
             if length word > 3 then
               bind (count_and_visible env (partial_option word)) (\<lambda>found.
                 if found then seq (click env (partial_option word)) (ret (Return True))
                 else ret Next)
             else ret Next))
          (seq (keyboard_press env ''Escape'') (ret (Return False))))"

definition press_escape_quietly :: "browser \<Rightarrow> unit page_prog" where
  \<comment> \<open>\<open>try: page.keyboard.press('Escape') except: pass\<close>\<close>
  "press_escape_quietly env = try_except (keyboard_press env ''Escape'') (\<lambda>e. ret ())"

definition try_dropdown :: "browser \<Rightarrow> string \<Rightarrow> locator \<Rightarrow> bool flow page_prog" where
  \<comment> \<open>the body of the loop over \<open>dropdown_selectors\<close> in the question branch\<close>
  "try_dropdown env answer_text dropdown =
     bind (count_and_visible env dropdown) (\<lambda>found.
     if found then
       try_except
         (bind (is_dropdown_filled env dropdown) (\<lambda>filled.
            if filled then ret (Return True)
            else
              seq (scroll_into_view_if_needed env dropdown) (
              seq (click env dropdown) (
              seq (sleep 2000) (
              select_answer env answer_text)))))
         (\<lambda>e. seq (press_escape_quietly env) (ret Next))
     else ret Next)"

definition fill_found_question :: "browser \<Rightarrow> locator \<Rightarrow> string \<Rightarrow> bool flow page_prog" where
  \<comment> \<open>the branch taken when the text looks like a form question\<close>
  "fill_found_question env question_element answer_text =
     and_then
       (for_each [1..<4] (\<lambda>level.
          let container = ancestor question_element level
          in for_each dropdown_selectors (\<lambda>dropdown_selector.
               try_dropdown env answer_text (First (Sub container dropdown_selector)))))
       (ret (Return False))"

definition no_option :: locator where
  \<open>no_option = First (Page ''[role="option"]:has-text("No")'')\<close>

definition fill_below_text :: "browser \<Rightarrow> locator \<Rightarrow> bool flow page_prog" where
  \<comment> \<open>the branch taken when the text does not look like a form question\<close>
  \<open>fill_below_text env question_element =
     for_each dropdown_selectors (\<lambda>dropdown_selector.
       let sibling = First (Sub question_element (''xpath=following-sibling::'' @
                       remove_char CHR '']'' (remove_char CHR ''['' dropdown_selector)))
       in bind (count env sibling) (\<lambda>n.
          let following_dropdown =
                (if n = 0
                 then First (Sub (Sub question_element ''xpath=following-sibling::*'')
                               dropdown_selector)
                 else sibling)
          in bind (count_and_visible env following_dropdown) (\<lambda>found.
             if found then
               try_except
                 (seq (scroll_into_view_if_needed env following_dropdown) (
                  seq (click env following_dropdown) (
                  seq (sleep 2000) (
                  bind (count_and_visible env no_option) (\<lambda>found_no.
                  if found_no then
                    seq (click env no_option) (seq (sleep 1000) (ret (Return True)))
                  else seq (keyboard_press env ''Escape'') (ret Next))))))
                 (\<lambda>e. seq (press_escape_quietly env) (ret Next))
             else ret Next)))\<close>

definition question_candidate ::
  "browser \<Rightarrow> string \<Rightarrow> locator \<Rightarrow> bool flow page_prog" where
  \<comment> \<open>the body of the loop over the elements that match one question selector\<close>
  "question_candidate env answer_text question_element =
     try_except
       (bind (is_visible env question_element) (\<lambda>vis.
          if vis then
            bind (inner_text env question_element) (\<lambda>t.
              let question_text = take 150 t
              in if contains_any (lower question_text) nav_terms then ret Next
                 else if length (strip question_text) > 10 \<and>
                         contains_any (lower question_text) question_words
                 then fill_found_question env question_element answer_text
                 else fill_below_text env question_element)
          else ret Next))
       (\<lambda>e. ret Next)"

definition fill_question_by_pattern :: "browser \<Rightarrow> string \<Rightarrow> string \<Rightarrow> bool page_prog" where
  "fill_question_by_pattern env pattern_text answer_text =
     returning
       (for_each (question_selectors pattern_text) (\<lambda>selector.
          try_except
            (let question_elements = Page selector
             in bind (count env question_elements) (\<lambda>n.
                for_each [0..<n] (\<lambda>i.
                  question_candidate env answer_text (Nth question_elements i))))
            (\<lambda>e. ret Next)))
       False"

definition question_mappings :: "(string \<times> string) list" where
  \<comment> \<open>the dictionary, in insertion order\<close>
  "question_mappings = [
     (''Do you certify you meet all minimum qualifications'', ''Yes''),
     (''mobile text message'', ''Opt-Out from receiving text messages from Walmart''),
     (''Are you legally able to work'', ''Yes''),
     (''Please select your age category'', ''18 years of age and Over''),
     (''Walmart Associate Status'', ''Previous associate''),
     (''work authorization within 3 days'', ''Yes''),
     (''sponsorship for an immigration-related employment'', ''No''),
     (''Walmart in determining your eligibility'', ''No''),
     (''Spouse/Partner of someone'', ''No''),
     (''direct family member'', ''No'')]"

definition fill_questions :: "browser \<Rightarrow> nat page_prog" where
  \<comment> \<open>the loop over \<open>question_mappings\<close>; the result is \<open>questions_filled\<close>\<close>
  "fill_questions env =
     for_acc question_mappings (\<lambda>(pattern, answer) questions_filled.
        bind (fill_question_by_pattern env pattern answer) (\<lambda>ok.
          if ok then
            seq (perform env (Evaluate ''window.scrollBy(0, 300);'')) (
            seq (sleep 1000) (
            seq (sleep 1000) (
            ret (questions_filled + 1))))
          else seq (sleep 1000) (ret questions_filled)))
       0"

definition military_regex_patterns :: "string list list" where
  \<comment> \<open>each regular expression, compiled with \<open>IGNORECASE\<close>, as the lower-case literals one
      of which a text must contain for \<open>search\<close> to succeed; the third ends in
      \<open>States?\<close>, whose last letter is optional\<close>
  "military_regex_patterns = [
     [''active duty'', ''guard'', ''reserve'', ''uniformed services''],
     [''the following questions are to assist walmart''],
     [''active duty or guard/reserve experience in the uniformed services of the united state'']]"

definition regex_search :: "string list \<Rightarrow> string \<Rightarrow> bool" where
  "regex_search pattern text = contains_any (lower text) pattern"

definition military_dropdown_selectors :: "string list" where
  \<open>military_dropdown_selectors = [
     ''[role="combobox"]'',
     ''select'',
     ''[aria-haspopup="listbox"]'',
     ''button[aria-expanded]'',
     ''button[aria-haspopup="listbox"]'',
     ''button:has-text("Select One")'',
     ''button:has-text("Choose")'',
     ''button:has-text("Please select")'']\<close>

definition no_option_selectors :: "string list" where
  \<open>no_option_selectors = [
     ''[role="option"]:has-text("No")'',
     ''li:has-text("No")'',
     ''div:has-text("No")'',
     ''[data-automation-label="No"]'',
     ''option[value="No"]'',
     ''*:has-text("No"):not(:has(*))'']\<close>

definition select_no :: "browser \<Rightarrow> bool flow page_prog" where
  \<comment> \<open>the military handler's search of the opened dropdown for "No"\<close>
  \<open>select_no env =
     and_then
       (for_each no_option_selectors (\<lambda>no_selector.
          let option = First (Page no_selector)
          in bind (count_and_visible env option) (\<lambda>found.
             if found then
               seq (click env option) (seq (sleep 1000) (ret (Return True)))
             else ret Next)))
       (and_then
          (bind (all_of env (Page ''[role="option"]'')) (\<lambda>partial_options.
             for_each partial_options (\<lambda>option.
               bind (is_visible env option) (\<lambda>vis.
                 if vis then
                   bind (inner_text env option) (\<lambda>t.
                     let option_text = strip (lower t)
                     in if option_text = ''no'' \<or> suffix ''no'' option_text then
                          seq (click env option) (seq (sleep 1000) (ret (Return True)))
                        else ret Next)
                 else ret Next))))
          (seq (keyboard_press env ''Escape'') (ret Next)))\<close>

definition military_dropdown :: "browser \<Rightarrow> locator \<Rightarrow> bool flow page_prog" where
  \<comment> \<open>the body of the loop over the dropdowns of one container\<close>
  "military_dropdown env dropdown =
     bind (is_visible env dropdown) (\<lambda>vis.
     if vis then
       try_except
         (bind (inner_text env dropdown) (\<lambda>t.
            let dropdown_text = lower t
            in if \<not> contains dropdown_text ''no'' \<or> contains dropdown_text ''select'' \<or>
                  strip dropdown_text = []
               then
                 seq (scroll_into_view_if_needed env dropdown) (
                 seq (click env dropdown) (
                 seq (sleep 2000) (
                 select_no env)))
               else ret (Return True)))
         (\<lambda>e. seq (press_escape_quietly env) (ret Next))
     else ret Next)"

definition military_containers :: "browser \<Rightarrow> locator \<Rightarrow> bool flow page_prog" where
  \<comment> \<open>the loop over the ancestor levels of an element whose text matched\<close>
  \<open>military_containers env element =
     for_each [1..<6] (\<lambda>level.
       let container = ancestor element level
       in and_then
            (for_each military_dropdown_selectors (\<lambda>selector.
               let dropdowns = Sub container selector
               in bind (count env dropdowns) (\<lambda>n.
                  for_each [0..<n] (\<lambda>j. military_dropdown env (Nth dropdowns j)))))
            (bind (count env (Sub container
                ''[role="combobox"], select, [aria-haspopup="listbox"], button[aria-expanded], button[aria-haspopup="listbox"]''))
               (\<lambda>n. if n > 0 then ret Break else ret Next)))\<close>

definition handle_military_question :: "browser \<Rightarrow> bool page_prog" where
  "handle_military_question env =
     returning
       (bind (all_of env (Page ''*'')) (\<lambda>all_text_elements.
          for_each all_text_elements (\<lambda>element.
            try_except
              (bind (is_visible env element) (\<lambda>vis.
                 if \<not> vis then ret Next
                 else
                   bind (inner_text env element) (\<lambda>element_text.
                     if length (strip element_text) < 20 then ret Next
                     else
                       for_each military_regex_patterns (\<lambda>pattern.
                         if regex_search pattern element_text
                         then military_containers env element
                         else ret Next))))
              (\<lambda>e. ret Next))))
       False"

definition all_dropdown_selectors :: "string list" where
  \<open>all_dropdown_selectors = [
     ''[role="combobox"]'',
     ''select'',
     ''[aria-haspopup="listbox"]'',
     ''button[aria-expanded]'',
     ''button[aria-haspopup="listbox"]'',
     ''button:has-text("Select One")'',
     ''button:has-text("Choose")'',
     ''button:has-text("Please select")'']\<close>

definition scan_dropdown :: "browser \<Rightarrow> locator \<Rightarrow> nat \<Rightarrow> nat page_prog" where
  \<comment> \<open>the body of the scan for empty dropdowns; the number is \<open>empty_dropdowns_found\<close>.
      The increment stays when \<open>inner_text\<close> raises after it. The search for the
      question text that follows only queries, inside \<open>try\<close> ... \<open>except: pass\<close>, and
      its result is only printed.\<close>
  "scan_dropdown env dropdown empty_dropdowns_found =
     bind (is_visible env dropdown) (\<lambda>vis.
     if vis then
       try_except
         (bind (is_dropdown_filled env dropdown) (\<lambda>filled.
            if \<not> filled then
              try_except
                (bind (inner_text env dropdown) (\<lambda>dropdown_text.
                   ret (empty_dropdowns_found + 1)))
                (\<lambda>e. ret (empty_dropdowns_found + 1))
            else ret empty_dropdowns_found))
         (\<lambda>e. ret empty_dropdowns_found)
     else ret empty_dropdowns_found)"

definition scan_empty_dropdowns :: "browser \<Rightarrow> nat page_prog" where
  "scan_empty_dropdowns env =
     for_acc all_dropdown_selectors (\<lambda>selector found.
        let dropdowns = Page selector
        in bind (count env dropdowns) (\<lambda>n.
           for_acc [0..<n] (\<lambda>i. scan_dropdown env (Nth dropdowns i)) found))
       0"

definition military_patterns :: "string list" where
  "military_patterns = [
     ''uniformed services'', ''active duty'', ''guard'', ''reserve'',
     ''military'', ''hiring program'', ''service members'']"

definition question_found :: "browser \<Rightarrow> locator \<Rightarrow> bool page_prog" where
  \<comment> \<open>the auto-fill's search of the four nearest ancestors for a military pattern\<close>
  "question_found env dropdown =
     returning
       (for_each [1..<5] (\<lambda>level.
          let container = ancestor dropdown level
          in bind (try_except
                     (bind (inner_text env container) (\<lambda>t. ret (Some (lower t))))
                     (\<lambda>e. ret None))
               (\<lambda>r. case r of
                  None \<Rightarrow> ret Next
                | Some container_text \<Rightarrow>
                    if contains_any container_text military_patterns
                    then ret (Return True)
                    else ret Next)))
       False"

definition fill_with_no :: "browser \<Rightarrow> locator \<Rightarrow> nat \<Rightarrow> nat page_prog" where
  \<comment> \<open>the auto-fill of one dropdown; the number is \<open>filled_count\<close>\<close>
  "fill_with_no env dropdown filled_count =
     try_except
       (seq (scroll_into_view_if_needed env dropdown) (
        seq (click env dropdown) (
        seq (sleep 2000) (
        bind (count_and_visible env no_option) (\<lambda>found.
        if found then
          seq (click env no_option) (seq (sleep 1000) (ret (filled_count + 1)))
        else seq (keyboard_press env ''Escape'') (ret filled_count))))))
       (\<lambda>e. seq (press_escape_quietly env) (ret filled_count))"

definition auto_fill_dropdown :: "browser \<Rightarrow> locator \<Rightarrow> nat \<Rightarrow> nat page_prog" where
  \<comment> \<open>the body of the auto-fill loop\<close>
  "auto_fill_dropdown env dropdown filled_count =
     bind (is_visible env dropdown) (\<lambda>vis.
     if vis then
       try_except
         (bind (is_dropdown_filled env dropdown) (\<lambda>filled.
            if \<not> filled then
              bind (inner_text env dropdown) (\<lambda>dropdown_text.
              bind (question_found env dropdown) (\<lambda>found.
              if found then fill_with_no env dropdown filled_count
              else ret filled_count))
            else ret filled_count))
         (\<lambda>e. ret filled_count)
     else ret filled_count)"

definition auto_fill :: "browser \<Rightarrow> nat page_prog" where
  "auto_fill env =
     for_acc all_dropdown_selectors (\<lambda>selector filled_count.
        let dropdowns = Page selector
        in bind (count env dropdowns) (\<lambda>n.
           for_acc [0..<n] (\<lambda>i. auto_fill_dropdown env (Nth dropdowns i)) filled_count))
       0"

definition application_questions :: "browser \<Rightarrow> unit page_prog" where
  \<comment> \<open>the branch of step 7 taken on the Application Questions page\<close>
  "application_questions env =
     bind (fill_questions env) (\<lambda>questions_filled.
     bind (handle_military_question env) (\<lambda>military_filled.
     bind (scan_empty_dropdowns env) (\<lambda>empty_dropdowns_found.
     if empty_dropdowns_found = 0 then ret ()
     else bind (auto_fill env) (\<lambda>filled_count. ret ()))))"

definition save_button :: locator where
  \<open>save_button = First (Page ''button:has-text("Save and Continue")'')\<close>

definition step_7_application_questions :: "browser \<Rightarrow> unit page_prog" where
  \<open>step_7_application_questions env =
     seq (debug_screenshot env ''step_7_application_questions'') (
     bind (count env (Page ''text="Application Questions"'')) (\<lambda>n.
     seq (if n > 0 then application_questions env else ret ()) (
     seq (sleep 2000) (
     bind (count env save_button) (\<lambda>n.
     if n > 0 then
       seqs [click env save_button,
             wait_for_page_load env,
             debug_screenshot env ''step_7_after_save'']
     else ret ())))))\<close>


section \<open>Steps 8 and 9\<close>

definition VOLUNTARY_DISCLOSURE_ANSWERS :: "string list" where
  "VOLUNTARY_DISCLOSURE_ANSWERS = [
     ''Asian/No Hispanic Origin (United States of America)'',
     ''Female'']"

definition voluntary_dropdown_selectors :: "string list" where
  \<open>voluntary_dropdown_selectors = [
     ''[role="combobox"]'',
     ''select'',
     ''[aria-haspopup="listbox"]'',
     ''button[aria-expanded]'']\<close>

definition collect_dropdowns :: "browser \<Rightarrow> locator list page_prog" where
  \<comment> \<open>the loop that builds \<open>all_dropdowns\<close>\<close>
  "collect_dropdowns env =
     for_acc voluntary_dropdown_selectors (\<lambda>selector all_dropdowns.
        let elements = Page selector
        in bind (count env elements) (\<lambda>n.
           for_acc [0..<n] (\<lambda>i all_dropdowns.
              let element = Nth elements i
              in bind (is_visible env element) (\<lambda>vis.
                 if vis then
                   bind (is_enabled env element) (\<lambda>en.
                     ret (if en then all_dropdowns @ [element] else all_dropdowns))
                 else ret all_dropdowns))
             all_dropdowns))
       []"

definition fill_voluntary :: "browser \<Rightarrow> locator \<Rightarrow> string \<Rightarrow> unit page_prog" where
  \<comment> \<open>the body of the loop over the first voluntary dropdowns\<close>
  "fill_voluntary env dropdown answer =
     try_except
       (seq (scroll_into_view_if_needed env dropdown) (
        seq (click env dropdown) (
        seq (sleep 1000) (
        bind (count env (partial_option answer)) (\<lambda>n.
        let words = split_ws answer;
            option = (if n = 0 \<and> length words > 1 then partial_option (words ! 0)
                      else partial_option answer)
        in bind (count env option) (\<lambda>m.
           if m > 0 then seq (click env option) (sleep 500)
           else perform env (Press dropdown ''Escape'')))))))
       (\<lambda>e. ret ())"

definition step_8_voluntary_disclosures :: "browser \<Rightarrow> unit page_prog" where
  \<open>step_8_voluntary_disclosures env =
     seq (debug_screenshot env ''step_8_voluntary_disclosures'') (
     bind (collect_dropdowns env) (\<lambda>all_dropdowns.
     let max_voluntary =
           min 2 (min (length all_dropdowns) (length VOLUNTARY_DISCLOSURE_ANSWERS))
     in seq (seqs (map (\<lambda>i. fill_voluntary env (all_dropdowns ! i)
                               (VOLUNTARY_DISCLOSURE_ANSWERS ! i))
                     [0..<max_voluntary])) (
        let checkbox = First (Page ''input[type="checkbox"]'')
        in bind (count_and_visible env checkbox) (\<lambda>found.
           seq (if found then seq (click env checkbox) (sleep 1000) else ret ()) (
           seqs [sleep 2000,
                 click env save_button,
                 wait_for_page_load env,
                 debug_screenshot env ''step_8_after_save''])))))\<close>

definition submit_selectors :: "string list" where
  \<open>submit_selectors = [
     ''button:has-text("Submit")'',
     ''button:has-text("Submit Application")'',
     ''input[type="submit"]'',
     ''button[type="submit"]'']\<close>

definition click_submit_button :: "browser \<Rightarrow> bool page_prog" where
  \<comment> \<open>the loop over \<open>submit_selectors\<close>; the result is \<open>submit_clicked\<close>\<close>
  "click_submit_button env =
     returning
       (for_each submit_selectors (\<lambda>selector.
          let submit_button = First (Page selector)
          in bind (count_and_visible env submit_button) (\<lambda>found.
             if found then seq (click env submit_button) (ret (Return True))
             else ret Next)))
       False"

definition step_9_review_and_submit :: "browser \<Rightarrow> bool page_prog" where
  "step_9_review_and_submit env =
     seq (debug_screenshot env ''step_9_review_page'') (
     seq (sleep 5000) (
     bind (click_submit_button env) (\<lambda>submit_clicked.
     seq (if submit_clicked then
            seq (wait_for_page_load env) (debug_screenshot env ''step_9_submitted'')
          else debug_screenshot env ''step_9_no_submit'') (
     ret submit_clicked))))"


section \<open>The application flow and the batch\<close>

text \<open>
  The three global tracking lists and the trace of the browser make up the state of a run.
\<close>

record run_state =
  SUCCESSFUL_SUBMISSIONS :: "string list"
  FAILED_SUBMISSIONS :: "string list"
  INCOMPLETE_SUBMISSIONS :: "string list"
  trace :: "action list"

definition on_page :: "'a page_prog \<Rightarrow> (run_state, 'a) prog" where
  \<comment> \<open>browser code touches the trace and nothing else\<close>
  "on_page m = (\<lambda>s. case m (trace s) of (r, t) \<Rightarrow> (r, s\<lparr>trace := t\<rparr>))"

definition append_successful :: "string \<Rightarrow> (run_state, unit) prog" where
  "append_successful job_id =
     (\<lambda>s. (Inr (), s\<lparr>SUCCESSFUL_SUBMISSIONS := SUCCESSFUL_SUBMISSIONS s @ [job_id]\<rparr>))"

definition append_incomplete :: "string \<Rightarrow> (run_state, unit) prog" where
  "append_incomplete job_id =
     (\<lambda>s. (Inr (), s\<lparr>INCOMPLETE_SUBMISSIONS := INCOMPLETE_SUBMISSIONS s @ [job_id]\<rparr>))"

definition append_failed :: "string \<Rightarrow> (run_state, unit) prog" where
  "append_failed job_id =
     (\<lambda>s. (Inr (), s\<lparr>FAILED_SUBMISSIONS := FAILED_SUBMISSIONS s @ [job_id]\<rparr>))"

definition steps_1_to_8 :: "browser \<Rightarrow> config \<Rightarrow> string \<Rightarrow> unit page_prog" where
  \<comment> \<open>the calls of the \<open>try\<close> block before step 9; the result of step 4 is dropped\<close>
  "steps_1_to_8 env cfg job_id =
     seq (step_1_login env cfg) (
     seq (step_2_navigate_to_jobs env) (
     seq (step_3_search_job env job_id) (
     bind (step_4_click_apply env job_id) (\<lambda>_.
     seq (step_5_my_information env) (
     seq (step_6_my_experience env) (
     seq (step_7_application_questions env) (
     step_8_voluntary_disclosures env)))))))"

definition attempt :: "browser \<Rightarrow> config \<Rightarrow> string \<Rightarrow> (run_state, unit) prog" where
  \<comment> \<open>the \<open>try\<close> ... \<open>except Exception\<close> of \<open>apply_to_job\<close>\<close>
  "attempt env cfg job_id =
     try_except
       (seq (on_page (steps_1_to_8 env cfg job_id)) (
        bind (on_page (step_9_review_and_submit env)) (\<lambda>submission_successful.
        if submission_successful then append_successful job_id
        else append_incomplete job_id)))
       (\<lambda>e. seq (on_page (debug_screenshot env (''error_'' @ job_id))) (
             append_failed job_id))"

definition apply_to_job :: "browser \<Rightarrow> config \<Rightarrow> string \<Rightarrow> (run_state, unit) prog" where
  "apply_to_job env cfg job_id =
     seq (on_page (perform env Playwright_start)) (
     try_finally
       (seq (on_page (perform env Launch)) (
        seq (on_page (perform env New_page)) (
        try_finally
          (attempt env cfg job_id)
          (seq (on_page (sleep 3000)) (on_page (perform env Close_browser))))))
       (on_page (perform env Playwright_stop)))"

definition process_jobs ::
  "browser \<Rightarrow> config \<Rightarrow> string list \<Rightarrow> (run_state, unit) prog" where
  \<comment> \<open>the loop of \<open>main\<close> over the job ids\<close>
  "process_jobs env cfg job_ids =
     seqs (map (\<lambda>job_id.
       seq (apply_to_job env cfg job_id) (
       if length (JOB_IDS cfg) > 1 then on_page (sleep 10000) else ret ())) job_ids)"

definition main :: "browser \<Rightarrow> config \<Rightarrow> (run_state, unit) prog" where
  \<comment> \<open>\<open>save_job_tracking_results\<close> writes files only; it is the one action \<open>Save_results\<close>\<close>
  "main env cfg =
     (if \<not> truthy (WORKDAY_URL cfg) \<or> \<not> truthy (USERNAME cfg) \<or> \<not> truthy (PASSWORD cfg)
      then ret ()
      else if JOB_IDS cfg = [] then ret ()
      else seq (process_jobs env cfg (JOB_IDS cfg)) (on_page (perform env Save_results)))"

definition initial_state :: run_state where
  "initial_state = \<lparr>SUCCESSFUL_SUBMISSIONS = [], FAILED_SUBMISSIONS = [],
     INCOMPLETE_SUBMISSIONS = [], trace = []\<rparr>"


section \<open>Notions used to state the properties\<close>

definition absent :: "browser \<Rightarrow> action list \<Rightarrow> locator \<Rightarrow> bool" where
  \<comment> \<open>\<open>l.count() > 0 and l.is_visible()\<close> answers, and answers no\<close>
  "absent env t l = (count_and_visible env l t = (Inr False, t))"

definition shown :: "browser \<Rightarrow> action list \<Rightarrow> locator \<Rightarrow> bool" where
  \<comment> \<open>\<open>l.count() > 0 and l.is_visible()\<close> answers yes\<close>
  "shown env t l = (count_and_visible env l t = (Inr True, t))"

definition app_questions_text :: locator where
  \<open>app_questions_text = Page ''text="Application Questions"''\<close>

definition placeholder_phrases :: "string list" where
  "placeholder_phrases = [
     ''select one'', ''select an'', ''choose'', ''please select'',
     ''-- select'', ''select...'', ''click to select'']"

definition filled_as_claimed :: "string \<Rightarrow> string option \<Rightarrow> bool" where
  \<comment> \<open>The already-filled predicate in the words of claim C2, to compare with
      \<open>is_dropdown_filled\<close>: the displayed text matches no placeholder (it is not empty and
      contains no placeholder phrase), and the value attribute is non-empty and no sentinel
      or the text is longer than 15 characters.\<close>
  "filled_as_claimed displayed v =
     (let text = lower displayed
      in (text \<noteq> [] \<and> \<not> contains_any text placeholder_phrases) \<and>
         ((truthy v \<and> strip (the v) \<noteq> [] \<and> the v \<notin> set ['''', ''0'', ''-1'']) \<or>
          length (strip text) > 15))"

definition near_keyword :: "browser \<Rightarrow> action list \<Rightarrow> locator \<Rightarrow> bool" where
  \<comment> \<open>the text of one of the four nearest ancestors can be read and contains a
      military pattern\<close>
  "near_keyword env t dropdown =
     list_ex (\<lambda>level. case text_of env t (ancestor dropdown level) of
                Inl e \<Rightarrow> False
              | Inr txt \<Rightarrow> contains_any (lower txt) military_patterns) [1..<5]"

fun fills_guarded :: "browser \<Rightarrow> action list \<Rightarrow> action list \<Rightarrow> bool" where
  \<comment> \<open>\<open>fills_guarded env t evs\<close>: the actions \<open>evs\<close>, performed after the trace \<open>t\<close>, only
      scroll to a locator that is near a keyword at that moment, click that locator right
      after the scroll or click the "No" option, press keys and sleep\<close>
  "fills_guarded env t [] = True"
| "fills_guarded env t (a # evs) =
     ((case a of
         Scroll_into_view d \<Rightarrow> near_keyword env t d
       | Click d \<Rightarrow> d = no_option \<or> (t \<noteq> [] \<and> last t = Scroll_into_view d)
       | Keyboard_press k \<Rightarrow> True
       | Sleep ms \<Rightarrow> True
       | _ \<Rightarrow> False) \<and>
      fills_guarded env (t @ [a]) evs)"

definition extends_guarded :: "browser \<Rightarrow> action list \<Rightarrow> action list \<Rightarrow> bool" where
  "extends_guarded env t t' =
     (take (length t) t' = t \<and> fills_guarded env t (drop (length t) t'))"



definition started :: "browser \<Rightarrow> run_state \<Rightarrow> bool" where
  \<comment> \<open>Playwright, the browser and the page come up\<close>
  "started env s =
     (raises env (trace s) Playwright_start = None \<and>
      raises env (trace s @ [Playwright_start]) Launch = None \<and>
      raises env (trace s @ [Playwright_start, Launch]) New_page = None)"

definition session :: "run_state \<Rightarrow> run_state" where
  \<comment> \<open>the state in which the \<open>try\<close> block of \<open>apply_to_job\<close> begins\<close>
  "session s = s\<lparr>trace := trace s @ [Playwright_start, Launch, New_page]\<rparr>"




section \<open>Counting the ledger\<close>

definition tally :: "run_state \<Rightarrow> string \<Rightarrow> nat" where
  \<comment> \<open>how often a job id occurs in the three lists together\<close>
  "tally s j = count_list (SUCCESSFUL_SUBMISSIONS s) j + count_list (INCOMPLETE_SUBMISSIONS s) j
     + count_list (FAILED_SUBMISSIONS s) j"

definition one_more :: "string \<Rightarrow> run_state \<Rightarrow> run_state \<Rightarrow> bool" where
  \<comment> \<open>from \<open>s\<close> to \<open>s'\<close> the job id was appended to one list, the other two are unchanged\<close>
  "one_more job_id s s' =
     ((SUCCESSFUL_SUBMISSIONS s' = SUCCESSFUL_SUBMISSIONS s @ [job_id] \<and>
       INCOMPLETE_SUBMISSIONS s' = INCOMPLETE_SUBMISSIONS s \<and>
       FAILED_SUBMISSIONS s' = FAILED_SUBMISSIONS s) \<or>
      (SUCCESSFUL_SUBMISSIONS s' = SUCCESSFUL_SUBMISSIONS s \<and>
       INCOMPLETE_SUBMISSIONS s' = INCOMPLETE_SUBMISSIONS s @ [job_id] \<and>
       FAILED_SUBMISSIONS s' = FAILED_SUBMISSIONS s) \<or>
      (SUCCESSFUL_SUBMISSIONS s' = SUCCESSFUL_SUBMISSIONS s \<and>
       INCOMPLETE_SUBMISSIONS s' = INCOMPLETE_SUBMISSIONS s \<and>
       FAILED_SUBMISSIONS s' = FAILED_SUBMISSIONS s @ [job_id]))"

definition same_lists :: "run_state \<Rightarrow> run_state \<Rightarrow> bool" where
  "same_lists s s' =
     (SUCCESSFUL_SUBMISSIONS s' = SUCCESSFUL_SUBMISSIONS s \<and>
      INCOMPLETE_SUBMISSIONS s' = INCOMPLETE_SUBMISSIONS s \<and>
      FAILED_SUBMISSIONS s' = FAILED_SUBMISSIONS s)"


section \<open>Browsers to run the program on\<close>

text \<open>
  A machine without network: every navigation raises, nothing is on the page.
\<close>

definition offline_browser :: browser where
  "offline_browser = \<lparr>
     count_of = (\<lambda>t l. Inr 0),
     visible_of = (\<lambda>t l. Inr False),
     enabled_of = (\<lambda>t l. Inr False),
     text_of = (\<lambda>t l. Inl (Exception ''Timeout'')),
     attr_of = (\<lambda>t l name. Inl (Exception ''Timeout'')),
     raises = (\<lambda>t a. case a of
        Goto url \<Rightarrow> Some (Exception ''net::ERR_INTERNET_DISCONNECTED'')
      | _ \<Rightarrow> None)\<rparr>"


text \<open>
  A site that shows the same elements whatever was done before: the locators of
  \<open>present\<close> match one visible, enabled element each, with the text and the \<open>value\<close>
  attribute that \<open>texts\<close> and \<open>vals\<close> give; acting on any other locator, or on one
  of \<open>broken\<close>, times out.
\<close>

definition site ::
  "locator list \<Rightarrow> locator list \<Rightarrow> (locator \<Rightarrow> string) \<Rightarrow> (locator \<Rightarrow> string option) \<Rightarrow> browser" where
  "site present broken texts vals = \<lparr>
     count_of = (\<lambda>t l. Inr (if l \<in> set present then 1 else 0)),
     visible_of = (\<lambda>t l. Inr (l \<in> set present)),
     enabled_of = (\<lambda>t l. Inr (l \<in> set present)),
     text_of = (\<lambda>t l. if l \<in> set present then Inr (texts l) else Inl (Exception ''Timeout'')),
     attr_of = (\<lambda>t l name.
        if l \<in> set present then Inr (if name = ''value'' then vals l else None)
        else Inl (Exception ''Timeout'')),
     raises = (\<lambda>t a.
        let ok = (\<lambda>l. if l \<in> set present \<and> l \<notin> set broken then None
                      else Some (Exception ''Timeout''))
        in case a of
             Click l \<Rightarrow> ok l
           | Fill l v \<Rightarrow> ok l
           | Press l k \<Rightarrow> ok l
           | Scroll_into_view l \<Rightarrow> ok l
           | _ \<Rightarrow> None)\<rparr>"

definition test_config :: "string \<Rightarrow> config" where
  "test_config ids = \<lparr>WORKDAY_URL = Some ''https://example.test/login'',
     USERNAME = Some ''user'', PASSWORD = Some ''secret'', JOB_IDS_env = Some ids\<rparr>"

definition search_box :: locator where
  \<open>search_box = First (Page ''input[type="text"]'')\<close>

definition job_link :: "string \<Rightarrow> locator" where
  \<open>job_link job_id = First (Page (''a[href*="'' @ job_id @ ''"]''))\<close>

definition use_last_app :: locator where
  \<open>use_last_app = First (Page ''a:has-text("Use")'')\<close>

definition apply_link :: locator where
  \<open>apply_link = First (Page ''a:has-text("Apply")'')\<close>

definition submit_button :: locator where
  \<open>submit_button = First (Page ''button:has-text("Submit")'')\<close>

definition no_apply_site :: "string \<Rightarrow> browser" where
  \<comment> \<open>the search finds the job, the job page has no Apply control, nothing else is there\<close>
  "no_apply_site job_id = site [search_box, job_link job_id] [] (\<lambda>l. []) (\<lambda>l. None)"

definition draft_site :: "string \<Rightarrow> browser" where
  \<comment> \<open>no Apply control, but a Save and Continue button and a Submit button\<close>
  "draft_site job_id =
     site [search_box, job_link job_id, save_button, submit_button] [] (\<lambda>l. []) (\<lambda>l. None)"


definition age_question :: locator where
  \<open>age_question = Nth (Page ''fieldset:has-text("Please select your age category")'') 0\<close>

definition age_dropdown :: locator where
  \<open>age_dropdown = First (Sub (ancestor age_question 1) ''[role="combobox"]'')\<close>

definition age_option :: locator where
  \<open>age_option = First (Page ''[role="option"]:has-text("18 years of age and Over")'')\<close>

definition age_site :: browser where
  \<comment> \<open>the age question already answered, and the option list it would open\<close>
  "age_site = site [age_dropdown, age_option] [] (\<lambda>l. ''18 years of age and Over'') (\<lambda>l. None)"

definition age_texts :: "locator \<Rightarrow> string" where
  "age_texts l = (if l = age_question then ''Please select your age category'' else ''Select One'')"

definition partial_site :: browser where
  \<comment> \<open>the age question unanswered; its list has no option with the whole answer, but one
      with the word \<open>years\<close>\<close>
  \<open>partial_site =
     site [Page ''fieldset:has-text("Please select your age category")'', age_question,
           age_dropdown, partial_option ''years''] [] age_texts (\<lambda>l. None)\<close>

definition unmatched_site :: browser where
  \<comment> \<open>the age question unanswered; its list has no option that matches\<close>
  \<open>unmatched_site =
     site [Page ''fieldset:has-text("Please select your age category")'', age_question,
           age_dropdown] [] age_texts (\<lambda>l. None)\<close>

definition combobox_0 :: locator where
  \<open>combobox_0 = Nth (Page ''[role="combobox"]'') 0\<close>

definition select_0 :: locator where
  \<open>select_0 = Nth (Page ''select'') 0\<close>

definition military_site :: browser where
  \<comment> \<open>two empty dropdowns: one under a question about military service, one under
      another question\<close>
  \<open>military_site =
     site [Page ''[role="combobox"]'', combobox_0, Page ''select'', select_0,
           ancestor combobox_0 1, ancestor select_0 2, no_option] []
       (\<lambda>l. if l = ancestor combobox_0 1 then ''Have you served on Active Duty?''
            else if l = ancestor select_0 2 then ''What is your favourite colour?''
            else ''Select One'')
       (\<lambda>l. None)\<close>


section \<open>Facts about the string functions\<close>

lemma split_on_not_Nil: "split_on c s \<noteq> []"
  by (induction s) (auto split: list.splits)

lemma join_split_on: "join_with c (split_on c s) = s"
proof (induction s)
  case Nil
  show ?case by simp
next
  case (Cons x xs)
  obtain w ws where ws: "split_on c xs = w # ws"
    using split_on_not_Nil [of c xs] by (cases "split_on c xs") auto
  with Cons show ?case by (cases ws) auto
qed

lemma split_on_pieces: "p \<in> set (split_on c s) \<Longrightarrow> set p \<subseteq> set s - {c}"
proof (induction s arbitrary: p)
  case Nil
  then show ?case by simp
next
  case (Cons x xs)
  obtain w ws where ws: "split_on c xs = w # ws"
    using split_on_not_Nil [of c xs] by (cases "split_on c xs") auto
  have w: "set w \<subseteq> set xs - {c}" using Cons.IH [of w] ws by simp
  have rest: "\<And>q. q \<in> set ws \<Longrightarrow> set q \<subseteq> set xs - {c}" using Cons.IH ws by simp
  show ?case
  proof (cases "x = c")
    case True
    with Cons.prems ws w rest show ?thesis by auto
  next
    case False
    with Cons.prems ws have "p = x # w \<or> p \<in> set ws" by auto
    with False w rest show ?thesis by auto
  qed
qed

lemma dropWhile_all: "\<forall>c\<in>set p. P c \<Longrightarrow> dropWhile P p = []"
  by (induction p) auto

lemma strip_all_space: "\<forall>c\<in>set p. is_space c \<Longrightarrow> strip p = []"
  by (simp add: strip_def dropWhile_all)

lemma concat_map_filter:
  "concat (map (\<lambda>j. if f j \<noteq> [] then [f j] else []) xs) = filter (\<lambda>j. j \<noteq> []) (map f xs)"
  by (induction xs) auto

lemma parse_job_ids_blank:
  assumes "\<forall>c\<in>set raw. c = CHR '','' \<or> is_space c"
  shows "parse_job_ids raw = []"
proof -
  have "strip p = []" if "p \<in> set (split_on CHR '','' raw)" for p
  proof -
    have "set p \<subseteq> set raw - {CHR '',''}" using that by (rule split_on_pieces)
    with assms have "\<forall>c\<in>set p. is_space c" by auto
    then show ?thesis by (rule strip_all_space)
  qed
  then show ?thesis
    unfolding parse_job_ids_def by (induction "split_on CHR '','' raw") auto
qed


lemma length_split_on: "length (split_on c s) = Suc (count_list s c)"
proof (induction s)
  case Nil
  show ?case by simp
next
  case (Cons x xs)
  obtain w ws where ws: "split_on c xs = w # ws"
    using split_on_not_Nil [of c xs] by (cases "split_on c xs") auto
  with Cons show ?case by auto
qed

lemma rev_drop_take:
  "rev (dropWhile P (rev xs)) @ rev (takeWhile P (rev xs)) = xs"
proof -
  have "rev (takeWhile P (rev xs) @ dropWhile P (rev xs)) = rev (rev xs)"
    by (simp only: takeWhile_dropWhile_id)
  then show ?thesis by (simp only: rev_append rev_rev_ident)
qed

lemma strip_rest:
  "dropWhile is_space s = strip s @ rev (takeWhile is_space (rev (dropWhile is_space s)))"
  unfolding strip_def by (simp only: rev_drop_take)

lemma strip_decomp:
  "\<exists>pre post. s = pre @ strip s @ post \<and> (\<forall>c\<in>set pre. is_space c) \<and>
     (\<forall>c\<in>set post. is_space c)"
proof -
  let ?pre = "takeWhile is_space s"
  let ?post = "rev (takeWhile is_space (rev (dropWhile is_space s)))"
  have "s = ?pre @ dropWhile is_space s" by simp
  then have "s = ?pre @ strip s @ ?post" using strip_rest [of s] by simp
  moreover have "\<forall>c\<in>set ?pre. is_space c" by (auto dest: set_takeWhileD)
  moreover have "\<forall>c\<in>set ?post. is_space c" by (auto dest: set_takeWhileD)
  ultimately show ?thesis by blast
qed

lemma strip_ends:
  assumes "strip s \<noteq> []"
  shows "\<not> is_space (hd (strip s)) \<and> \<not> is_space (last (strip s))"
proof -
  let ?rest = "dropWhile is_space s"
  let ?d = "dropWhile is_space (rev ?rest)"
  have d: "?d \<noteq> []" using assms by (simp add: strip_def)
  then have 1: "\<not> is_space (hd ?d)" by (rule hd_dropWhile)
  have "last (strip s) = hd ?d" using d by (simp add: strip_def last_rev)
  with 1 have last: "\<not> is_space (last (strip s))" by simp
  have rest: "?rest \<noteq> []"
  proof
    assume "?rest = []"
    then have "?d = []" by (simp only: rev.simps dropWhile.simps)
    with d show False by contradiction
  qed
  then have 2: "\<not> is_space (hd ?rest)" by (rule hd_dropWhile)
  have "hd ?rest = hd (strip s)" using assms strip_rest [of s] by (metis hd_append2)
  with 2 last show ?thesis by simp
qed

lemma is_space_codes:
  "is_space c \<longleftrightarrow> (of_char c :: nat) \<in> {9, 10, 11, 12, 13, 28, 29, 30, 31, 32, 133, 160}"
  unfolding is_space_def Let_def by auto


section \<open>Running programs: basic facts\<close>

lemmas run_simps = ret_def raise_def bind_def seq_def try_except_def try_finally_def
  and_then_def returning_def perform_def sleep_def count_def is_visible_def is_enabled_def
  inner_text_def get_attribute_def click_def scroll_into_view_if_needed_def keyboard_press_def
  all_of_def count_and_visible_def debug_screenshot_def wait_for_page_load_def required_def
  on_page_def append_successful_def append_incomplete_def append_failed_def

lemma on_page_same: "on_page m s = (r, s') \<Longrightarrow> same_lists s s'"
  by (auto simp: on_page_def same_lists_def split: prod.splits)

lemma same_lists_trans: "same_lists s s1 \<Longrightarrow> same_lists s1 s2 \<Longrightarrow> same_lists s s2"
  by (simp add: same_lists_def)

lemma one_more_tally:
  "one_more job_id s s' \<Longrightarrow> tally s' j = tally s j + (if job_id = j then 1 else 0)"
  by (auto simp: one_more_def tally_def)

lemma same_tally: "same_lists s s' \<Longrightarrow> tally s' j = tally s j"
  by (auto simp: same_lists_def tally_def)


section \<open>The ledger\<close>

text \<open>
  The \<open>try\<close> block of \<open>apply_to_job\<close> never lets an exception out, and appends the job
  id to one list, once.
\<close>

lemma attempt_one_more:
  assumes "attempt env cfg job_id s = (r, s')"
  shows "r = Inr () \<and> one_more job_id s s'"
proof -
  obtain r1 s1 where 1: "on_page (steps_1_to_8 env cfg job_id) s = (r1, s1)" by force
  obtain r2 s2 where 2: "on_page (step_9_review_and_submit env) s1 = (r2, s2)" by force
  have l1: "same_lists s s1" using 1 by (rule on_page_same)
  have l2: "same_lists s1 s2" using 2 by (rule on_page_same)
  have handler: "r = Inr () \<and> one_more job_id s s'"
    if "same_lists s s0"
      and "seq (on_page (debug_screenshot env (''error_'' @ job_id))) (append_failed job_id) s0
             = (r, s')"
    for s0
  proof -
    obtain r3 s3 where 3: "on_page (debug_screenshot env (''error_'' @ job_id)) s0 = (r3, s3)"
      by force
    have "r3 = Inr ()" using 3
      by (auto simp: on_page_def debug_screenshot_def try_except_def ret_def
          split: prod.splits sum.splits)
    moreover have "same_lists s0 s3" using 3 by (rule on_page_same)
    ultimately show ?thesis using that 3
      by (auto simp: seq_def bind_def append_failed_def one_more_def same_lists_def)
  qed
  show ?thesis
  proof (cases r1)
    case (Inl e)
    with assms 1 l1 handler [of s1] show ?thesis
      by (simp add: attempt_def try_except_def seq_def bind_def)
  next
    case a: (Inr u)
    show ?thesis
    proof (cases r2)
      case (Inl e)
      with assms 1 2 a handler [of s2] same_lists_trans [OF l1 l2] show ?thesis
        by (simp add: attempt_def try_except_def seq_def bind_def)
    next
      case (Inr b)
      with assms 1 2 a same_lists_trans [OF l1 l2] show ?thesis
        by (auto simp: attempt_def try_except_def seq_def bind_def append_successful_def
            append_incomplete_def one_more_def same_lists_def split: if_splits)
    qed
  qed
qed

lemma apply_to_job_one_more:
  assumes "apply_to_job env cfg job_id s = (Inr (), s')"
  shows "one_more job_id s s'"
proof -
  obtain r1 s1 where 1: "on_page (perform env Playwright_start) s = (r1, s1)" by force
  obtain r2 s2 where 2: "on_page (perform env Launch) s1 = (r2, s2)" by force
  obtain r3 s3 where 3: "on_page (perform env New_page) s2 = (r3, s3)" by force
  obtain r4 s4 where 4: "attempt env cfg job_id s3 = (r4, s4)" by force
  obtain r5 s5 where 5: "on_page (sleep 3000) s4 = (r5, s5)" by force
  obtain r6 s6 where 6: "on_page (perform env Close_browser) s5 = (r6, s6)" by force
  obtain r7 s7 where 7: "on_page (perform env Playwright_stop) s6 = (r7, s7)" by force
  note same = on_page_same [OF 1] on_page_same [OF 2] on_page_same [OF 3]
    on_page_same [OF 5] on_page_same [OF 6] on_page_same [OF 7]
  have om: "one_more job_id s3 s4" using attempt_one_more [OF 4] by simp
  have r1: "r1 = Inr ()" using assms 1
    by (auto simp: apply_to_job_def seq_def bind_def split: sum.splits)
  have r2: "r2 = Inr ()" and r3: "r3 = Inr ()" and s': "s' = s7"
    using assms 1 2 3 4 5 6 7 r1
    by (auto simp: apply_to_job_def seq_def bind_def try_finally_def
        split: sum.splits prod.splits)
  from same om show ?thesis unfolding s'
    by (auto simp: same_lists_def one_more_def)
qed

lemma process_jobs_tally:
  "process_jobs env cfg js s = (Inr (), s') \<Longrightarrow> tally s' j = tally s j + count_list js j"
proof (induction js arbitrary: s)
  case Nil
  then show ?case by (simp add: process_jobs_def ret_def)
next
  case (Cons a js)
  from Cons.prems obtain s1 s2 where
    a: "apply_to_job env cfg a s = (Inr (), s1)" and
    p: "(if length (JOB_IDS cfg) > 1 then on_page (sleep 10000) else ret ()) s1 = (Inr (), s2)"
    and r: "process_jobs env cfg js s2 = (Inr (), s')"
    by (auto simp: process_jobs_def seq_def bind_def split: prod.splits sum.splits)
  have "tally s1 j = tally s j + (if a = j then 1 else 0)"
    using a by (intro one_more_tally apply_to_job_one_more)
  moreover have "tally s2 j = tally s1 j"
    using p by (auto simp: ret_def dest!: on_page_same same_tally split: if_splits)
  ultimately show ?case using Cons.IH [OF r] by simp
qed

lemma distinct_count_one: "distinct xs \<Longrightarrow> x \<in> set xs \<Longrightarrow> count_list xs x = 1"
  by (induction xs) auto

lemma offline_run:
  "fst (main offline_browser (test_config ''7, 8'') initial_state) = Inr () \<and>
   FAILED_SUBMISSIONS (snd (main offline_browser (test_config ''7, 8'') initial_state))
     = [''7'', ''8'']"
  by (simp add: main_def test_config_def JOB_IDS_def parse_job_ids_def strip_def is_space_def
      truthy_def process_jobs_def apply_to_job_def attempt_def steps_1_to_8_def
      step_1_login_def offline_browser_def initial_state_def run_simps)

text \<open>
  Claim C1, as amended. A batch run with a complete configuration that ends without an
  exception leaves every job id in the three lists together exactly as often as it
  occurs in the input list. So when the input list has no repeated id, each of its ids
  is in exactly one list, exactly once.
\<close>

theorem ledger_counts_input:
  assumes "truthy (WORKDAY_URL cfg)" and "truthy (USERNAME cfg)" and "truthy (PASSWORD cfg)"
    and "main env cfg initial_state = (Inr (), s')"
  shows "tally s' j = count_list (JOB_IDS cfg) j \<and>
         (distinct (JOB_IDS cfg) \<and> j \<in> set (JOB_IDS cfg) \<longrightarrow> tally s' j = 1)"
proof -
  have total: "tally s' j = count_list (JOB_IDS cfg) j"
  proof (cases "JOB_IDS cfg = []")
    case True
    with assms have "s' = initial_state" by (simp add: main_def ret_def)
    with True show ?thesis by (simp add: tally_def initial_state_def)
  next
    case False
    with assms obtain s1
      where p: "process_jobs env cfg (JOB_IDS cfg) initial_state = (Inr (), s1)"
        and q: "on_page (perform env Save_results) s1 = (Inr (), s')"
      by (auto simp: main_def seq_def bind_def split: prod.splits sum.splits)
    have "tally s' j = tally s1 j" using q by (auto dest!: on_page_same same_tally)
    also have "\<dots> = tally initial_state j + count_list (JOB_IDS cfg) j"
      using p by (rule process_jobs_tally)
    finally show ?thesis by (simp add: tally_def initial_state_def)
  qed
  moreover have "count_list (JOB_IDS cfg) j = 1"
    if "distinct (JOB_IDS cfg)" and "j \<in> set (JOB_IDS cfg)"
    using that by (rule distinct_count_one)
  ultimately show ?thesis by simp
qed

theorem ledger_counts_input_witness:
  "truthy (WORKDAY_URL (test_config ''7, 8'')) \<and> truthy (USERNAME (test_config ''7, 8'')) \<and>
   truthy (PASSWORD (test_config ''7, 8'')) \<and>
   fst (main offline_browser (test_config ''7, 8'') initial_state) = Inr () \<and>
   distinct (JOB_IDS (test_config ''7, 8'')) \<and> ''8'' \<in> set (JOB_IDS (test_config ''7, 8'')) \<and>
   tally (snd (main offline_browser (test_config ''7, 8'') initial_state)) ''8'' = 1"
proof -
  have c: "truthy (WORKDAY_URL (test_config ''7, 8''))" "truthy (USERNAME (test_config ''7, 8''))"
    "truthy (PASSWORD (test_config ''7, 8''))"
    by (simp_all add: test_config_def truthy_def)
  have ok: "fst (main offline_browser (test_config ''7, 8'') initial_state) = Inr ()"
    using offline_run by simp
  then have run: "main offline_browser (test_config ''7, 8'') initial_state =
     (Inr (), snd (main offline_browser (test_config ''7, 8'') initial_state))"
    by (simp add: prod_eq_iff)
  have ids: "JOB_IDS (test_config ''7, 8'') = [''7'', ''8'']"
    by (simp add: test_config_def JOB_IDS_def parse_job_ids_def strip_def is_space_def)
  show ?thesis
    using ledger_counts_input [OF c run, of "''8''"] c ok ids by simp
qed

text \<open>
  Claim C1 as stated fails when the input list repeats an id: the run below ends
  normally and has appended the id \<open>1\<close> to the same list twice.
\<close>

theorem ledger_repeated_id_counterexample:
  "fst (main offline_browser (test_config ''1,1'') initial_state) = Inr () \<and>
   FAILED_SUBMISSIONS (snd (main offline_browser (test_config ''1,1'') initial_state))
     = [''1'', ''1'']"
  by (simp add: main_def test_config_def JOB_IDS_def parse_job_ids_def strip_def is_space_def
      truthy_def process_jobs_def apply_to_job_def attempt_def steps_1_to_8_def
      step_1_login_def offline_browser_def initial_state_def run_simps)


section \<open>Configuration checks\<close>

text \<open>
  Claim C8. If the URL, the user name or the password is missing, or the list of job ids
  is empty, \<open>main\<close> returns with the state untouched: the trace gains no action, so no
  Playwright session is started, no browser is launched and no step runs.
\<close>

theorem main_aborts_on_missing_configuration:
  "\<not> truthy (WORKDAY_URL cfg) \<or> \<not> truthy (USERNAME cfg) \<or> \<not> truthy (PASSWORD cfg) \<or>
     JOB_IDS cfg = []
   \<Longrightarrow> main env cfg s = (Inr (), s)"
  by (auto simp: main_def ret_def)

theorem main_aborts_on_missing_configuration_witness:
  "\<not> truthy (PASSWORD ((test_config ''7, 8'')\<lparr>PASSWORD := None\<rparr>)) \<and>
   main offline_browser ((test_config ''7, 8'')\<lparr>PASSWORD := None\<rparr>) initial_state
     = (Inr (), initial_state) \<and>
   JOB_IDS (test_config '''') = [] \<and>
   main offline_browser (test_config '''') initial_state = (Inr (), initial_state)"
  using main_aborts_on_missing_configuration
      [of "(test_config ''7, 8'')\<lparr>PASSWORD := None\<rparr>" offline_browser initial_state]
    main_aborts_on_missing_configuration [of "test_config ''''" offline_browser initial_state]
  by (simp add: test_config_def truthy_def JOB_IDS_def parse_job_ids_def strip_def)

text \<open>
  Claim C9. The job ids of a run are the pieces of the configuration string between
  commas, each stripped of surrounding whitespace, without the pieces that are empty
  after stripping; an unset variable gives no job id. Splitting is pinned down by: the
  pieces joined by commas give the string back, no piece contains a comma, and there is
  one more piece than commas. Stripping is pinned down by: the stripped string is the
  string without a whitespace-only prefix and suffix, and it is empty or begins and
  ends with a character that is not whitespace. Whitespace is the set of code points
  below 256 that \<open>str.isspace\<close> accepts. So a string of commas and whitespace only
  gives the empty list, and \<open>main\<close> returns without doing anything, exactly as it does
  when the variable is not set.
\<close>

theorem blank_job_ids_abort:
  "JOB_IDS (cfg\<lparr>JOB_IDS_env := Some raw\<rparr>)
     = filter (\<lambda>j. j \<noteq> []) (map strip (split_on CHR '','' raw)) \<and>
   JOB_IDS (cfg\<lparr>JOB_IDS_env := None\<rparr>) = [] \<and>
   parse_job_ids raw = filter (\<lambda>j. j \<noteq> []) (map strip (split_on CHR '','' raw)) \<and>
   join_with CHR '','' (split_on CHR '','' raw) = raw \<and>
   (\<forall>p\<in>set (split_on CHR '','' raw). CHR '','' \<notin> set p) \<and>
   length (split_on CHR '','' raw) = Suc (count_list raw CHR '','') \<and>
   (\<exists>pre post. p = pre @ strip p @ post \<and> (\<forall>c\<in>set pre. is_space c) \<and>
      (\<forall>c\<in>set post. is_space c)) \<and>
   (strip p \<noteq> [] \<longrightarrow> \<not> is_space (hd (strip p)) \<and> \<not> is_space (last (strip p))) \<and>
   (is_space c \<longleftrightarrow>
      (of_char c :: nat) \<in> {9, 10, 11, 12, 13, 28, 29, 30, 31, 32, 133, 160}) \<and>
   ((\<forall>c\<in>set raw. c = CHR '','' \<or> is_space c) \<longrightarrow>
      JOB_IDS (cfg\<lparr>JOB_IDS_env := Some raw\<rparr>) = [] \<and>
      main env (cfg\<lparr>JOB_IDS_env := Some raw\<rparr>) s = (Inr (), s) \<and>
      main env (cfg\<lparr>JOB_IDS_env := Some raw\<rparr>) s = main env (cfg\<lparr>JOB_IDS_env := None\<rparr>) s)"
proof -
  have 1: "parse_job_ids raw = filter (\<lambda>j. j \<noteq> []) (map strip (split_on CHR '','' raw))"
    unfolding parse_job_ids_def by (rule concat_map_filter)
  then have 0: "JOB_IDS (cfg\<lparr>JOB_IDS_env := Some raw\<rparr>)
     = filter (\<lambda>j. j \<noteq> []) (map strip (split_on CHR '','' raw))"
    by (simp add: JOB_IDS_def)
  have none: "JOB_IDS (cfg\<lparr>JOB_IDS_env := None\<rparr>) = []"
    by (simp add: JOB_IDS_def parse_job_ids_def strip_def)
  have 2: "\<forall>p\<in>set (split_on CHR '','' raw). CHR '','' \<notin> set p"
    using split_on_pieces [of _ "CHR '',''" raw] by auto
  have 3: "JOB_IDS (cfg\<lparr>JOB_IDS_env := Some raw\<rparr>) = [] \<and>
      main env (cfg\<lparr>JOB_IDS_env := Some raw\<rparr>) s = (Inr (), s) \<and>
      main env (cfg\<lparr>JOB_IDS_env := Some raw\<rparr>) s = main env (cfg\<lparr>JOB_IDS_env := None\<rparr>) s"
    if "\<forall>c\<in>set raw. c = CHR '','' \<or> is_space c"
  proof -
    have "JOB_IDS (cfg\<lparr>JOB_IDS_env := Some raw\<rparr>) = []"
      using parse_job_ids_blank [OF that] by (simp add: JOB_IDS_def)
    with none show ?thesis by (simp add: main_def ret_def)
  qed
  have 4: "join_with CHR '','' (split_on CHR '','' raw) = raw" by (rule join_split_on)
  have 5: "length (split_on CHR '','' raw) = Suc (count_list raw CHR '','')"
    by (rule length_split_on)
  note 6 = strip_decomp [of p] and 7 = strip_ends [of p] and 8 = is_space_codes [of c]
  from 0 none 1 4 2 5 6 7 8 3 show ?thesis by blast
qed

theorem blank_job_ids_abort_witness:
  "JOB_IDS (test_config '' R123,R456 ,, , 789 '') = [''R123'', ''R456'', ''789''] \<and>
   split_on CHR '','' '' R123,R456 ,, , 789 '' = ['' R123'', ''R456 '', '''', '' '', '' 789 ''] \<and>
   strip '' 789 '' = ''789'' \<and> strip '' a b '' = ''a b'' \<and>
   is_space CHR '' '' \<and> is_space (CHR 0x09) \<and> is_space (CHR 0x0A) \<and>
   \<not> is_space CHR '','' \<and> \<not> is_space CHR ''7'' \<and>
   list_all (\<lambda>c. c = CHR '','' \<or> is_space c) '' , ,,  '' \<and>
   JOB_IDS (test_config '' , ,,  '') = [] \<and>
   main offline_browser (test_config '' , ,,  '') initial_state = (Inr (), initial_state)"
proof -
  have a: "filter (\<lambda>j. j \<noteq> []) (map strip (split_on CHR '','' '' R123,R456 ,, , 789 ''))
        = [''R123'', ''R456'', ''789'']"
    by (simp add: strip_def is_space_def)
  have b: "split_on CHR '','' '' R123,R456 ,, , 789 ''
        = ['' R123'', ''R456 '', '''', '' '', '' 789 '']"
    by simp
  have c: "strip '' 789 '' = ''789''" "strip '' a b '' = ''a b''"
    by (simp_all add: strip_def is_space_def)
  have d: "is_space CHR '' ''" "is_space (CHR 0x09)" "is_space (CHR 0x0A)"
    "\<not> is_space CHR '',''" "\<not> is_space CHR ''7''"
    by (simp_all add: is_space_def)
  have e: "\<forall>c\<in>set '' , ,,  ''. c = CHR '','' \<or> is_space c"
    by (simp add: is_space_def)
  from blank_job_ids_abort [where cfg = "test_config ''7''" and raw = "'' R123,R456 ,, , 789 ''"]
  have 1: "JOB_IDS (test_config '' R123,R456 ,, , 789 '') = [''R123'', ''R456'', ''789'']"
    unfolding a by (simp add: test_config_def)
  note blank = blank_job_ids_abort [where cfg = "test_config ''7''" and raw = "'' , ,,  ''"
      and env = offline_browser and s = initial_state,
      THEN conjunct2, THEN conjunct2, THEN conjunct2, THEN conjunct2, THEN conjunct2,
      THEN conjunct2, THEN conjunct2, THEN conjunct2, THEN conjunct2, THEN mp, OF e]
  have cfg: "(test_config ''7'')\<lparr>JOB_IDS_env := Some '' , ,,  ''\<rparr> = test_config '' , ,,  ''"
    by (simp add: test_config_def)
  from blank have 2: "JOB_IDS (test_config '' , ,,  '') = [] \<and>
     main offline_browser (test_config '' , ,,  '') initial_state = (Inr (), initial_state)"
    unfolding cfg by blast
  from 1 2 b c d e show ?thesis by (simp add: list_all_iff)
qed


section \<open>The already-filled check\<close>

lemma contains_any_empty_indicators: "contains_any s empty_indicators"
  by (simp add: contains_any_def empty_indicators_def contains_def)

text \<open>
  The empty string is one of \<open>empty_indicators\<close> and is contained in every text, so the
  check answers \<open>False\<close> for every dropdown.
\<close>

lemma is_dropdown_filled_False: "is_dropdown_filled env d t = (Inr False, t)"
  by (cases "text_of env t d")
     (simp_all add: is_dropdown_filled_def try_except_def bind_def inner_text_def ret_def
        contains_any_empty_indicators)

lemma lower_age: "lower ''18 years of age and Over'' = ''18 years of age and over''"
  by code_simp

text \<open>
  Claim C2 at a dropdown that shows the answer \<open>18 years of age and Over\<close>: the
  predicate of the claim holds of it, the program's check says it is not filled, and
  the resolver opens it and selects the answer again.
\<close>

theorem filled_dropdown_is_reopened:
  "filled_as_claimed ''18 years of age and Over'' None \<and>
   text_of age_site [] age_dropdown = Inr ''18 years of age and Over'' \<and>
   is_dropdown_filled age_site age_dropdown [] = (Inr False, []) \<and>
   try_dropdown age_site ''18 years of age and Over'' age_dropdown [] =
     (Inr (Return True),
      [Scroll_into_view age_dropdown, Click age_dropdown, Sleep 2000,
       Click age_option, Sleep 1000])"
proof -
  have "filled_as_claimed ''18 years of age and Over'' None"
    unfolding filled_as_claimed_def lower_age
    by (simp add: placeholder_phrases_def contains_any_def contains_def sublist_code
        strip_def is_space_def)
  moreover have "try_dropdown age_site ''18 years of age and Over'' age_dropdown [] =
     (Inr (Return True),
      [Scroll_into_view age_dropdown, Click age_dropdown, Sleep 2000,
       Click age_option, Sleep 1000])"
    by (simp add: try_dropdown_def is_dropdown_filled_False select_answer_def
        option_selectors_def age_site_def site_def age_option_def run_simps)
  moreover have "text_of age_site [] age_dropdown = Inr ''18 years of age and Over''"
    by (simp add: age_site_def site_def)
  ultimately show ?thesis by (simp add: is_dropdown_filled_False)
qed


section \<open>Step 7 away from the Application Questions page\<close>

text \<open>
  Claim C10. When the text \<open>Application Questions\<close> is not found, step 7 performs,
  after its first screenshot, only a sleep and then, if a Save and Continue button is
  found, a click on that button, the wait for the page and a screenshot. Nothing else is
  clicked, scrolled to or typed, and the button is clicked exactly when it is found.
\<close>

theorem step_7_off_page:
  assumes "count_of env (t @ [Screenshot ''step_7_application_questions''])
             app_questions_text = Inr 0"
  shows "\<exists>rest. snd (step_7_application_questions env t)
           = t @ [Screenshot ''step_7_application_questions'', Sleep 2000] @ rest \<and>
         set rest \<subseteq> {Click save_button, Wait_for_load_state 10000, Sleep 4000,
                      Screenshot ''step_7_after_save''} \<and>
         (Click save_button \<in> set rest \<longleftrightarrow>
            (\<exists>n>0. count_of env (t @ [Screenshot ''step_7_application_questions'', Sleep 2000])
                      save_button = Inr n))"
  using assms
  unfolding step_7_application_questions_def app_questions_text_def
  by (cases "count_of env (t @ [Screenshot ''step_7_application_questions'', Sleep 2000])
               save_button")
     (auto simp: run_simps split: option.splits sum.splits)

theorem step_7_off_page_witness:
  "count_of (site [save_button] [] (\<lambda>l. []) (\<lambda>l. None))
     [Screenshot ''step_7_application_questions''] app_questions_text = Inr 0 \<and>
   step_7_application_questions (site [save_button] [] (\<lambda>l. []) (\<lambda>l. None)) [] =
     (Inr (), [Screenshot ''step_7_application_questions'', Sleep 2000, Click save_button,
        Wait_for_load_state 10000, Sleep 4000, Screenshot ''step_7_after_save''])"
  using step_7_off_page [of "site [save_button] [] (\<lambda>l. []) (\<lambda>l. None)" "[]"]
  by (simp add: step_7_application_questions_def app_questions_text_def save_button_def
      site_def run_simps)


section \<open>Loops\<close>

lemma for_each_all_next:
  "(\<And>x. x \<in> set xs \<Longrightarrow> body x t = (Inr Next, t)) \<Longrightarrow> for_each xs body t = (Inr Next, t)"
  by (induction xs) (auto simp: ret_def bind_def)

lemma for_each_first:
  assumes "xs = pre @ x # post"
    and "\<And>y. y \<in> set pre \<Longrightarrow> body y t = (Inr Next, t)"
    and "body x t = (Inr (Return r), t')"
  shows "for_each xs body t = (Inr (Return r), t')"
  using assms(2) unfolding assms(1)
  by (induction pre) (auto simp: ret_def bind_def assms(3))


section \<open>Selecting the answer in an opened dropdown\<close>

lemma select_answer_exact:
  assumes "option_selectors a = pre @ sel # post"
    and "\<forall>x\<in>set pre. absent env t (First (Page x))"
    and "shown env t (First (Page sel))"
    and "raises env t (Click (First (Page sel))) = None"
  shows "select_answer env a t = (Inr (Return True), t @ [Click (First (Page sel)), Sleep 1000])"
proof -
  let ?body = "\<lambda>opt_selector.
          let option = First (Page opt_selector)
          in bind (count_and_visible env option) (\<lambda>found.
             if found then
               seq (click env option) (seq (sleep 1000) (ret (Return True)))
             else ret Next)"
  have "for_each (option_selectors a) ?body t
          = (Inr (Return True), t @ [Click (First (Page sel)), Sleep 1000])"
  proof (rule for_each_first [OF assms(1)])
    fix y assume "y \<in> set pre"
    with assms(2) show "?body y t = (Inr Next, t)"
      by (simp add: Let_def absent_def bind_def ret_def)
  next
    from assms(3,4) show "?body sel t = (Inr (Return True), t @ [Click (First (Page sel)), Sleep 1000])"
      by (simp add: Let_def shown_def bind_def ret_def seq_def click_def perform_def sleep_def)
  qed
  then show ?thesis by (simp add: select_answer_def and_then_def bind_def ret_def)
qed

lemma exact_tier_fails:
  assumes "\<forall>x\<in>set (option_selectors a). absent env t (First (Page x))"
  shows "for_each (option_selectors a) (\<lambda>opt_selector.
          let option = First (Page opt_selector)
          in bind (count_and_visible env option) (\<lambda>found.
             if found then
               seq (click env option) (seq (sleep 1000) (ret (Return True)))
             else ret Next)) t = (Inr Next, t)"
  using assms by (intro for_each_all_next) (simp add: Let_def absent_def bind_def ret_def)

lemma select_answer_partial:
  assumes "\<forall>x\<in>set (option_selectors a). absent env t (First (Page x))"
    and "split_ws a = pre @ w # post"
    and "length w > 3"
    and "\<forall>v\<in>set pre. length v > 3 \<longrightarrow> absent env t (partial_option v)"
    and "shown env t (partial_option w)"
    and "raises env t (Click (partial_option w)) = None"
  shows "select_answer env a t = (Inr (Return True), t @ [Click (partial_option w)])"
proof -
  let ?body = "\<lambda>word.
             if length word > 3 then
               bind (count_and_visible env (partial_option word)) (\<lambda>found.
                 if found then seq (click env (partial_option word)) (ret (Return True))
                 else ret Next)
             else ret Next"
  have "for_each (split_ws a) ?body t = (Inr (Return True), t @ [Click (partial_option w)])"
  proof (rule for_each_first [OF assms(2)])
    fix y assume "y \<in> set pre"
    with assms(4) show "?body y t = (Inr Next, t)"
      by (auto simp: absent_def bind_def ret_def)
  next
    from assms(3,5,6) show "?body w t = (Inr (Return True), t @ [Click (partial_option w)])"
      by (simp add: shown_def bind_def ret_def seq_def click_def perform_def)
  qed
  with exact_tier_fails [OF assms(1)] show ?thesis
    by (simp add: select_answer_def and_then_def bind_def ret_def)
qed

lemma select_answer_neither:
  assumes "\<forall>x\<in>set (option_selectors a). absent env t (First (Page x))"
    and "\<forall>v\<in>set (split_ws a). length v > 3 \<longrightarrow> absent env t (partial_option v)"
    and "raises env t (Keyboard_press ''Escape'') = None"
  shows "select_answer env a t = (Inr (Return False), t @ [Keyboard_press ''Escape''])"
proof -
  let ?body = "\<lambda>word.
             if length word > 3 then
               bind (count_and_visible env (partial_option word)) (\<lambda>found.
                 if found then seq (click env (partial_option word)) (ret (Return True))
                 else ret Next)
             else ret Next"
  have "for_each (split_ws a) ?body t = (Inr Next, t)"
    using assms(2) by (intro for_each_all_next) (auto simp: absent_def bind_def ret_def)
  with exact_tier_fails [OF assms(1)] assms(3) show ?thesis
    by (simp add: select_answer_def and_then_def bind_def ret_def seq_def keyboard_press_def
        perform_def)
qed

text \<open>
  Claim C6. In an opened dropdown the option with the whole answer is looked for first:
  the first of the four exact selectors that is found visible is clicked, and nothing
  else is tried. When none is found, the words of the answer longer than three
  characters are tried in order, and the first whose option is found visible is clicked.
  When no word matches either, Escape is pressed and the function returns \<open>False\<close>.
  Among the mapped answers only those of several words have a word longer than three
  characters, so the second tier is reached for multi-word answers only.
\<close>

theorem select_answer_tiers:
  "(option_selectors a = pre @ sel # post \<and>
      (\<forall>x\<in>set pre. absent env t (First (Page x))) \<and>
      shown env t (First (Page sel)) \<and>
      raises env t (Click (First (Page sel))) = None \<longrightarrow>
      select_answer env a t =
        (Inr (Return True), t @ [Click (First (Page sel)), Sleep 1000])) \<and>
   ((\<forall>x\<in>set (option_selectors a). absent env t (First (Page x))) \<and>
      split_ws a = wpre @ w # wpost \<and> length w > 3 \<and>
      (\<forall>v\<in>set wpre. length v > 3 \<longrightarrow> absent env t (partial_option v)) \<and>
      shown env t (partial_option w) \<and>
      raises env t (Click (partial_option w)) = None \<longrightarrow>
      select_answer env a t = (Inr (Return True), t @ [Click (partial_option w)])) \<and>
   ((\<forall>x\<in>set (option_selectors a). absent env t (First (Page x))) \<and>
      (\<forall>v\<in>set (split_ws a). length v > 3 \<longrightarrow> absent env t (partial_option v)) \<and>
      raises env t (Keyboard_press ''Escape'') = None \<longrightarrow>
      select_answer env a t = (Inr (Return False), t @ [Keyboard_press ''Escape''])) \<and>
   (\<forall>(p, ans)\<in>set question_mappings.
      (\<exists>v\<in>set (split_ws ans). length v > 3) \<longrightarrow> length (split_ws ans) > 1)"
proof -
  have "list_all (\<lambda>(p, ans). list_ex (\<lambda>v. length v > 3) (split_ws ans) \<longrightarrow>
          length (split_ws ans) > 1) question_mappings"
    by code_simp
  then have "\<forall>(p, ans)\<in>set question_mappings.
      (\<exists>v\<in>set (split_ws ans). length v > 3) \<longrightarrow> length (split_ws ans) > 1"
    by (simp add: list_all_iff list_ex_iff case_prod_unfold)
  then show ?thesis
    using select_answer_exact [of a pre sel post env t]
      select_answer_partial [of a env t wpre w wpost]
      select_answer_neither [of a env t]
    by blast
qed

theorem select_answer_tiers_witness:
  "select_answer age_site ''18 years of age and Over''
       [Scroll_into_view age_dropdown, Click age_dropdown, Sleep 2000] =
     (Inr (Return True),
      [Scroll_into_view age_dropdown, Click age_dropdown, Sleep 2000,
       Click age_option, Sleep 1000]) \<and>
   list_all (\<lambda>x. absent partial_site
       [Scroll_into_view age_dropdown, Click age_dropdown, Sleep 2000] (First (Page x)))
     (option_selectors ''18 years of age and Over'') \<and>
   split_ws ''18 years of age and Over'' = [''18''] @ ''years'' # [''of'', ''age'', ''and'', ''Over''] \<and>
   shown partial_site [Scroll_into_view age_dropdown, Click age_dropdown, Sleep 2000]
     (partial_option ''years'') \<and>
   select_answer partial_site ''18 years of age and Over''
       [Scroll_into_view age_dropdown, Click age_dropdown, Sleep 2000] =
     (Inr (Return True),
      [Scroll_into_view age_dropdown, Click age_dropdown, Sleep 2000,
       Click (partial_option ''years'')]) \<and>
   select_answer unmatched_site ''18 years of age and Over''
       [Scroll_into_view age_dropdown, Click age_dropdown, Sleep 2000] =
     (Inr (Return False),
      [Scroll_into_view age_dropdown, Click age_dropdown, Sleep 2000,
       Keyboard_press ''Escape'']) \<and>
   fill_question_by_pattern partial_site ''Please select your age category''
       ''18 years of age and Over'' [] =
     (Inr True,
      [Scroll_into_view age_dropdown, Click age_dropdown, Sleep 2000,
       Click (partial_option ''years'')]) \<and>
   fill_question_by_pattern unmatched_site ''Please select your age category''
       ''18 years of age and Over'' [] =
     (Inr False,
      [Scroll_into_view age_dropdown, Click age_dropdown, Sleep 2000,
       Keyboard_press ''Escape''])"
proof -
  let ?t = "[Scroll_into_view age_dropdown, Click age_dropdown, Sleep 2000]"
  let ?a = "''18 years of age and Over''"
  have exact: "option_selectors ?a = [] @ hd (option_selectors ?a) # tl (option_selectors ?a)"
    by (simp add: option_selectors_def)
  have found: "shown age_site ?t (First (Page (hd (option_selectors ?a))))"
    "raises age_site ?t (Click (First (Page (hd (option_selectors ?a))))) = None"
    by (simp_all add: shown_def option_selectors_def age_site_def age_option_def site_def
        run_simps)
  have none_before: "\<forall>x\<in>set []. absent age_site ?t (First (Page x))" by simp
  have "option_selectors ?a = [] @ hd (option_selectors ?a) # tl (option_selectors ?a) \<and>
      (\<forall>x\<in>set []. absent age_site ?t (First (Page x))) \<and>
      shown age_site ?t (First (Page (hd (option_selectors ?a)))) \<and>
      raises age_site ?t (Click (First (Page (hd (option_selectors ?a))))) = None"
    using exact found none_before by (intro conjI)
  then have "select_answer age_site ?a ?t =
      (Inr (Return True), ?t @ [Click (First (Page (hd (option_selectors ?a)))), Sleep 1000])"
    by (rule select_answer_tiers [where pre = "[]", THEN conjunct1, rule_format])
  then have a: "select_answer age_site ?a ?t =
      (Inr (Return True), ?t @ [Click age_option, Sleep 1000])"
    by (simp add: age_option_def option_selectors_def)
  have 1: "list_all (\<lambda>x. absent partial_site ?t (First (Page x))) (option_selectors ?a)"
    by code_simp
  have 2: "split_ws ?a = [''18''] @ ''years'' # [''of'', ''age'', ''and'', ''Over'']"
    by code_simp
  have 3: "shown partial_site ?t (partial_option ''years'')" by code_simp
  have 4: "raises partial_site ?t (Click (partial_option ''years'')) = None" by code_simp
  have 5: "\<forall>v\<in>set [''18'']. length v > 3 \<longrightarrow> absent partial_site ?t (partial_option v)"
    by simp
  have 6: "fill_question_by_pattern partial_site ''Please select your age category'' ?a [] =
     (Inr True, ?t @ [Click (partial_option ''years'')])"
    by code_simp
  have 7: "fill_question_by_pattern unmatched_site ''Please select your age category'' ?a [] =
     (Inr False, ?t @ [Keyboard_press ''Escape''])"
    by code_simp
  from 1 have all: "\<forall>x\<in>set (option_selectors ?a). absent partial_site ?t (First (Page x))"
    by (simp add: list_all_iff)
  have b: "select_answer partial_site ?a ?t =
          (Inr (Return True), ?t @ [Click (partial_option ''years'')])"
    using select_answer_tiers [where a = ?a and env = partial_site and t = ?t
        and wpre = "[''18'']" and w = "''years''" and wpost = "[''of'', ''age'', ''and'', ''Over'']"]
      all 2 3 4 5
    by simp
  have "list_all (\<lambda>x. absent unmatched_site ?t (First (Page x))) (option_selectors ?a)"
    by code_simp
  then have none: "\<forall>x\<in>set (option_selectors ?a). absent unmatched_site ?t (First (Page x))"
    by (simp add: list_all_iff)
  have "list_all (\<lambda>v. length v > 3 \<longrightarrow> absent unmatched_site ?t (partial_option v))
          (split_ws ?a)"
    by code_simp
  then have words: "\<forall>v\<in>set (split_ws ?a). length v > 3 \<longrightarrow>
      absent unmatched_site ?t (partial_option v)"
    by (simp add: list_all_iff)
  have esc: "raises unmatched_site ?t (Keyboard_press ''Escape'') = None" by code_simp
  have "(\<forall>x\<in>set (option_selectors ?a). absent unmatched_site ?t (First (Page x))) \<and>
      (\<forall>v\<in>set (split_ws ?a). length v > 3 \<longrightarrow>
         absent unmatched_site ?t (partial_option v)) \<and>
      raises unmatched_site ?t (Keyboard_press ''Escape'') = None"
    using none words esc by (intro conjI)
  then have c: "select_answer unmatched_site ?a ?t =
      (Inr (Return False), ?t @ [Keyboard_press ''Escape''])"
    by (rule select_answer_tiers [THEN conjunct2, THEN conjunct2, THEN conjunct1, rule_format])
  from a b c 1 2 3 6 7 show ?thesis by simp
qed


section \<open>The auto-fill of the sweep\<close>

lemma fills_guarded_append:
  "fills_guarded env t (e1 @ e2) = (fills_guarded env t e1 \<and> fills_guarded env (t @ e1) e2)"
  by (induction e1 arbitrary: t) auto

lemma extends_guardedI: "fills_guarded env t evs \<Longrightarrow> extends_guarded env t (t @ evs)"
  by (simp add: extends_guarded_def)

lemma extends_guarded_refl: "extends_guarded env t t"
  by (simp add: extends_guarded_def)

lemma extends_guarded_trans:
  assumes "extends_guarded env t t1" "extends_guarded env t1 t2"
  shows "extends_guarded env t t2"
proof -
  from assms(1) obtain e1 where e1: "t1 = t @ e1" "fills_guarded env t e1"
    unfolding extends_guarded_def by (metis append_take_drop_id)
  from assms(2) obtain e2 where e2: "t2 = t1 @ e2" "fills_guarded env t1 e2"
    unfolding extends_guarded_def by (metis append_take_drop_id)
  have "fills_guarded env t (e1 @ e2)" using e1 e2 by (simp add: fills_guarded_append)
  then have "extends_guarded env t (t @ (e1 @ e2))" by (rule extends_guardedI)
  then show ?thesis using e1 e2 by simp
qed

lemma question_found_eq: "question_found env d t = (Inr (near_keyword env t d), t)"
proof -
  have u: "[1..<5] = [1, 2, 3, 4::nat]" by (simp add: upt_rec)
  show ?thesis
    unfolding question_found_def near_keyword_def u
    by (simp add: run_simps split: sum.splits)
qed

lemma fill_with_no_guarded:
  assumes "near_keyword env t d"
  shows "extends_guarded env t (snd (fill_with_no env d n t))"
proof -
  have "\<exists>evs. snd (fill_with_no env d n t) = t @ evs \<and> fills_guarded env t evs"
    using assms
    by (auto simp: fill_with_no_def press_escape_quietly_def run_simps
        split: option.splits sum.splits)
  then show ?thesis by (auto intro: extends_guardedI)
qed

lemma fill_with_no_total: "\<exists>m. fst (fill_with_no env d n t) = Inr m"
  by (auto simp: fill_with_no_def press_escape_quietly_def run_simps
        split: option.splits sum.splits)


lemma for_acc_guarded:
  assumes "\<And>x a t. extends_guarded env t (snd (body x a t))"
  shows "extends_guarded env t (snd (for_acc xs body a t))"
proof (induction xs arbitrary: a t)
  case Nil
  show ?case by (simp add: ret_def extends_guarded_refl)
next
  case (Cons x xs)
  obtain r t1 where b: "body x a t = (r, t1)" by force
  have g: "extends_guarded env t t1" using assms [of t x a] b by simp
  show ?case
  proof (cases r)
    case (Inl e)
    with b g show ?thesis by (simp add: bind_def)
  next
    case (Inr a')
    with b have "snd (for_acc (x # xs) body a t) = snd (for_acc xs body a' t1)"
      by (simp add: bind_def)
    with g Cons.IH [of t1 a'] show ?thesis by (auto intro: extends_guarded_trans)
  qed
qed

lemma auto_fill_dropdown_guarded:
  "extends_guarded env t (snd (auto_fill_dropdown env d n t))"
proof (cases "near_keyword env t d")
  case True
  obtain m where m: "fst (fill_with_no env d n t) = Inr m" using fill_with_no_total by blast
  have "snd (auto_fill_dropdown env d n t) = t \<or>
        snd (auto_fill_dropdown env d n t) = snd (fill_with_no env d n t)"
    using m
    by (cases "fill_with_no env d n t")
       (auto simp: auto_fill_dropdown_def is_dropdown_filled_False question_found_eq
          bind_def try_except_def ret_def is_visible_def inner_text_def split: sum.splits)
  with fill_with_no_guarded [OF True] show ?thesis by (auto simp: extends_guarded_refl)
next
  case False
  then have "snd (auto_fill_dropdown env d n t) = t"
    by (auto simp: auto_fill_dropdown_def is_dropdown_filled_False question_found_eq
          bind_def try_except_def ret_def is_visible_def inner_text_def split: sum.splits)
  then show ?thesis by (simp add: extends_guarded_refl)
qed

lemma auto_fill_dropdown_untouched:
  assumes "\<not> near_keyword env t d"
  shows "snd (auto_fill_dropdown env d n t) = t \<and>
         (\<forall>m. fst (auto_fill_dropdown env d n t) = Inr m \<longrightarrow> m = n)"
  using assms
  by (auto simp: auto_fill_dropdown_def is_dropdown_filled_False question_found_eq
          bind_def try_except_def ret_def is_visible_def inner_text_def split: sum.splits)

lemma auto_fill_guarded: "extends_guarded env t (snd (auto_fill env t))"
  unfolding auto_fill_def
proof (rule for_acc_guarded)
  fix selector a t
  show "extends_guarded env t
          (snd ((let dropdowns = Page selector
                 in bind (count env dropdowns) (\<lambda>n.
                    for_acc [0..<n] (\<lambda>i. auto_fill_dropdown env (Nth dropdowns i)) a)) t))"
  proof (cases "count_of env t (Page selector)")
    case (Inl e)
    then show ?thesis by (simp add: Let_def bind_def count_def extends_guarded_refl)
  next
    case (Inr n)
    then show ?thesis
      by (simp add: Let_def bind_def count_def for_acc_guarded auto_fill_dropdown_guarded)
  qed
qed

text \<open>
  Claim C7. Whatever the page, the auto-fill phase only scrolls to a dropdown that at
  that moment has a military pattern in the text of one of its four nearest ancestors,
  clicks that dropdown right after the scroll, clicks the option "No", presses keys and
  sleeps. A dropdown with no such pattern nearby is left as it is: the trace and the
  count of filled dropdowns do not change.
\<close>

theorem auto_fill_only_near_keywords:
  "extends_guarded env t (snd (auto_fill env t)) \<and>
   (\<not> near_keyword env t d \<longrightarrow>
      snd (auto_fill_dropdown env d n t) = t \<and>
      (\<forall>m. fst (auto_fill_dropdown env d n t) = Inr m \<longrightarrow> m = n))"
  using auto_fill_guarded [of env t] auto_fill_dropdown_untouched [of env t d n] by blast

theorem auto_fill_only_near_keywords_witness:
  "near_keyword military_site [] combobox_0 \<and>
   \<not> near_keyword military_site [] select_0 \<and>
   auto_fill_dropdown military_site select_0 0 [] = (Inr 0, []) \<and>
   auto_fill military_site [] =
     (Inr 1, [Scroll_into_view combobox_0, Click combobox_0, Sleep 2000,
              Click no_option, Sleep 1000]) \<and>
   extends_guarded military_site [] (snd (auto_fill military_site []))"
proof -
  have 1: "near_keyword military_site [] combobox_0" by code_simp
  have 2: "\<not> near_keyword military_site [] select_0" by code_simp
  have 3: "auto_fill_dropdown military_site select_0 0 [] = (Inr 0, [])" by code_simp
  have 4: "auto_fill military_site [] =
     (Inr 1, [Scroll_into_view combobox_0, Click combobox_0, Sleep 2000,
              Click no_option, Sleep 1000])"
    by code_simp
  from 1 2 3 4 auto_fill_only_near_keywords [of military_site "[]" select_0 0]
  show ?thesis by simp
qed


section \<open>Three runs of one job\<close>

lemmas step_defs = steps_1_to_8_def step_1_login_def step_2_navigate_to_jobs_def
  step_3_search_job_def step_4_click_apply_def click_apply_button_def apply_selectors_def
  step_4_finish_def use_last_application_def step_5_my_information_def
  step_6_my_experience_def step_7_application_questions_def step_8_voluntary_disclosures_def
  collect_dropdowns_def voluntary_dropdown_selectors_def step_9_review_and_submit_def
  click_submit_button_def submit_selectors_def apply_to_job_def attempt_def

lemmas site_defs = site_def test_config_def search_box_def job_link_def use_last_app_def
  apply_link_def submit_button_def save_button_def initial_state_def session_def

lemma no_apply_run:
  \<open>apply_to_job (no_apply_site ''123456'') (test_config ''123456'') ''123456'' initial_state =
     (Inr (), \<lparr>SUCCESSFUL_SUBMISSIONS = [], FAILED_SUBMISSIONS = [''123456''],
        INCOMPLETE_SUBMISSIONS = [], trace = [
     Playwright_start, Launch, New_page, Goto ''https://example.test/login'', Sleep 2000,
      Screenshot ''step_1_login_page'', Page_fill ''input[id="input-4"]'' ''user'',
      Page_fill ''input[id="input-5"]'' ''secret'',
      Page_click ''[data-automation-id="signInSubmitButton"]'', Wait_for_load_state 10000,
      Sleep 4000, Screenshot ''step_1_after_login'',
      Goto ''https://walmart.wd5.myworkdayjobs.com/en-US/WalmartExternal'', Sleep 3000,
      Screenshot ''step_2_job_search_page'', Click search_box,
      Fill search_box ''123456'', Press search_box ''Enter'',
      Wait_for_load_state 10000, Sleep 4000, Screenshot ''step_3_search_results'',
      Click (job_link ''123456''), Wait_for_load_state 10000, Sleep 4000,
      Screenshot ''step_3_job_page'', Click search_box, Fill search_box ''123456'',
      Press search_box ''Enter'', Wait_for_load_state 10000, Sleep 4000,
      Screenshot ''step_3_search_results'', Click (job_link ''123456''),
      Wait_for_load_state 10000, Sleep 4000, Screenshot ''step_3_job_page'',
      Screenshot ''no_apply_button_123456'', Screenshot ''step_5_my_information'',
      Wait_for_load_state 10000, Sleep 4000, Screenshot ''step_5_after_save'',
      Screenshot ''step_6_my_experience'', Click save_button,
      Screenshot ''error_123456'', Sleep 3000, Close_browser, Playwright_stop]\<rparr>)\<close>
  by (simp add: Let_def step_defs site_defs no_apply_site_def run_simps)

lemma draft_run:
  \<open>apply_to_job (draft_site ''123456'') (test_config ''123456'') ''123456'' initial_state =
     (Inr (), \<lparr>SUCCESSFUL_SUBMISSIONS = [''123456''], FAILED_SUBMISSIONS = [],
        INCOMPLETE_SUBMISSIONS = [], trace = [
     Playwright_start, Launch, New_page, Goto ''https://example.test/login'', Sleep 2000,
      Screenshot ''step_1_login_page'', Page_fill ''input[id="input-4"]'' ''user'',
      Page_fill ''input[id="input-5"]'' ''secret'',
      Page_click ''[data-automation-id="signInSubmitButton"]'', Wait_for_load_state 10000,
      Sleep 4000, Screenshot ''step_1_after_login'',
      Goto ''https://walmart.wd5.myworkdayjobs.com/en-US/WalmartExternal'', Sleep 3000,
      Screenshot ''step_2_job_search_page'', Click search_box,
      Fill search_box ''123456'', Press search_box ''Enter'',
      Wait_for_load_state 10000, Sleep 4000, Screenshot ''step_3_search_results'',
      Click (job_link ''123456''), Wait_for_load_state 10000, Sleep 4000,
      Screenshot ''step_3_job_page'', Click search_box, Fill search_box ''123456'',
      Press search_box ''Enter'', Wait_for_load_state 10000, Sleep 4000,
      Screenshot ''step_3_search_results'', Click (job_link ''123456''),
      Wait_for_load_state 10000, Sleep 4000, Screenshot ''step_3_job_page'',
      Screenshot ''no_apply_button_123456'', Screenshot ''step_5_my_information'',
      Click save_button, Wait_for_load_state 10000, Sleep 4000,
      Wait_for_load_state 10000, Sleep 4000, Screenshot ''step_5_after_save'',
      Screenshot ''step_6_my_experience'', Click save_button, Wait_for_load_state 10000,
      Sleep 4000, Screenshot ''step_6_after_save'',
      Screenshot ''step_7_application_questions'', Sleep 2000, Click save_button,
      Wait_for_load_state 10000, Sleep 4000, Screenshot ''step_7_after_save'',
      Screenshot ''step_8_voluntary_disclosures'', Sleep 2000, Click save_button,
      Wait_for_load_state 10000, Sleep 4000, Screenshot ''step_8_after_save'',
      Screenshot ''step_9_review_page'', Sleep 5000, Click submit_button,
      Wait_for_load_state 10000, Sleep 4000, Screenshot ''step_9_submitted'', Sleep 3000,
      Close_browser, Playwright_stop]\<rparr>)\<close>
  by (simp add: Let_def step_defs site_defs draft_site_def run_simps)



section \<open>How a job is classified\<close>











lemma apply_to_job_closed:
  assumes "started env s" and "attempt env cfg job_id (session s) = (Inr (), s1)"
    and "raises env (trace s1 @ [Sleep 3000]) Close_browser = None"
    and "raises env (trace s1 @ [Sleep 3000, Close_browser]) Playwright_stop = None"
  shows "apply_to_job env cfg job_id s =
     (Inr (), s1\<lparr>trace := trace s1 @ [Sleep 3000, Close_browser, Playwright_stop]\<rparr>)"
  using assms
  by (simp add: started_def session_def apply_to_job_def run_simps)












section \<open>A job page without an Apply control\<close>

text \<open>
  Claim C3 on a job whose page never shows an Apply control. Step 4 repeats step 3 once
  and returns \<open>False\<close>; \<open>apply_to_job\<close> drops that result and goes on with steps 5
  and 6. Here the job ends in the failed list only because the click of step 6 times
  out. On a page that has no Apply control but a Save and Continue button and a Submit
  button, the same job ends in the successful list.
\<close>

theorem absent_apply_does_not_stop_the_job:
  "step_4_click_apply (no_apply_site ''123456'') ''123456'' [] =
     (Inr (Some False),
      [Click search_box, Fill search_box ''123456'', Press search_box ''Enter'',
       Wait_for_load_state 10000, Sleep 4000, Screenshot ''step_3_search_results'',
       Click (job_link ''123456''), Wait_for_load_state 10000, Sleep 4000,
       Screenshot ''step_3_job_page'', Screenshot ''no_apply_button_123456'']) \<and>
   drop 35 (trace (snd (apply_to_job (no_apply_site ''123456'') (test_config ''123456'')
                          ''123456'' initial_state))) =
     [Screenshot ''no_apply_button_123456'', Screenshot ''step_5_my_information'',
      Wait_for_load_state 10000, Sleep 4000, Screenshot ''step_5_after_save'',
      Screenshot ''step_6_my_experience'', Click save_button, Screenshot ''error_123456'',
      Sleep 3000, Close_browser, Playwright_stop] \<and>
   FAILED_SUBMISSIONS (snd (apply_to_job (no_apply_site ''123456'') (test_config ''123456'')
                              ''123456'' initial_state)) = [''123456''] \<and>
   SUCCESSFUL_SUBMISSIONS (snd (apply_to_job (draft_site ''123456'') (test_config ''123456'')
                                  ''123456'' initial_state)) = [''123456''] \<and>
   FAILED_SUBMISSIONS (snd (apply_to_job (draft_site ''123456'') (test_config ''123456'')
                              ''123456'' initial_state)) = []"
proof -
  have "step_4_click_apply (no_apply_site ''123456'') ''123456'' [] =
     (Inr (Some False),
      [Click search_box, Fill search_box ''123456'', Press search_box ''Enter'',
       Wait_for_load_state 10000, Sleep 4000, Screenshot ''step_3_search_results'',
       Click (job_link ''123456''), Wait_for_load_state 10000, Sleep 4000,
       Screenshot ''step_3_job_page'', Screenshot ''no_apply_button_123456''])"
    by (simp add: Let_def step_defs site_defs no_apply_site_def run_simps)
  then show ?thesis by (simp add: no_apply_run draft_run)
qed


section \<open>Exceptions\<close>







end
